theory Spec2Isabelle
  imports Complex_Main
begin

section \<open>Multi-view variational autoencoders: data model\<close>

text \<open>
  The models of \<^verbatim>\<open>src/models/vae.py\<close> (one latent per view),
  \<^verbatim>\<open>src/models/joint_vae.py\<close> (one fused latent) and
  \<^verbatim>\<open>multiae/models/dvcca.py\<close> (shared and private latents).

  Numbers: an entry of a tensor and a Python float of an attribute are given by the
  real they denote. The sparsity gate (\<open>dropout\<close> and the mask of \<open>apply_threshold\<close>)
  computes in float32 with its rounding, overflow and NaN. The losses and the sample
  \<open>mu + eps * std\<close> are written with the exact operations: their rounding is left out.
  A 2-D tensor of shape [batch, width] is the list of its rows. A parameter of shape
  [1, n] (\<open>log_alpha\<close>) is modelled by its single row, a list of length n.
\<close>

type_synonym tensor = "real list list"

datatype error =
    AssertionError
  | NotImplementedError
  | AttributeError
  | IndexError
  | TypeError
  | SystemExit

text \<open>
  \<open>Encoder\<close> and \<open>Decoder\<close> (\<^verbatim>\<open>layers.py\<close>) are not part of the sources at hand: a
  module is recorded by the arguments it was built with.
\<close>

record encoder =
  enc_input_dim :: nat
  enc_hidden_layer_dims :: "nat list"
  enc_variational :: bool
  enc_non_linear :: bool
  enc_sparse :: bool
  enc_log_alpha :: "real list option"

record decoder =
  dec_input_dim :: nat
  dec_hidden_layer_dims :: "nat list"
  dec_variational :: bool
  dec_non_linear :: bool

text \<open>
  \<open>torch.optim.Adam(params, lr)\<close>: the list of parameters handed over and the learning
  rate. \<open>'p\<close> is the type of parameters.
\<close>

record 'p optimizer =
  opt_params :: "'p list"
  opt_lr :: real

datatype join = ProductOfExperts | MeanRepresentation

text \<open>
  The attributes of a \<open>VAE\<close> instance, of either file. \<open>join_type\<close> and \<open>join_z\<close> exist
  in \<^verbatim>\<open>joint_vae.py\<close> only (\<open>None\<close>: the attribute is not set). \<open>log_alpha = None\<close> is
  Python's \<open>None\<close>.
\<close>

record 'p vae =
  model_type :: string
  input_dims :: "nat list"
  z_dim :: nat
  non_linear :: bool
  beta :: real
  learning_rate :: real
  SNP_model :: bool
  joint_representation :: bool
  join_type :: "string option"
  join_z :: "join option"
  threshold :: real
  sparse :: bool
  log_alpha :: "real list option"
  n_views :: nat
  encoders :: "encoder list"
  decoders :: "decoder list"
  optimizers :: "'p optimizer list"

section \<open>Construction\<close>

text \<open>
  \<open>torch.FloatTensor(1, z_dim).normal_(0, 0.01)\<close>: a fresh row of \<open>z_dim\<close> random
  numbers. The random source is the argument \<open>normal\<close>, giving the number drawn for
  each column.
\<close>

definition new_log_alpha :: "(nat \<Rightarrow> real) \<Rightarrow> nat \<Rightarrow> real list" where
  "new_log_alpha normal n = map normal [0..<n]"

text \<open>
  The sparsity switch of both constructors (\<^verbatim>\<open>vae.py\<close> 51-58, \<^verbatim>\<open>joint_vae.py\<close>
  64-71); \<open>sparse_name\<close> is the model type of the sparse variant.
\<close>

definition set_sparsity :: "(nat \<Rightarrow> real) \<Rightarrow> string \<Rightarrow> 'p vae \<Rightarrow> 'p vae" where
  "set_sparsity normal sparse_name m =
     (if threshold m \<noteq> 0
      then m\<lparr>sparse := True, model_type := sparse_name,
              log_alpha := Some (new_log_alpha normal (z_dim m))\<rparr>
      else m\<lparr>log_alpha := None, sparse := False\<rparr>)"

text \<open>
  The module lists and the optimizers (\<^verbatim>\<open>vae.py\<close> 61-64, \<^verbatim>\<open>joint_vae.py\<close> 74-77, the
  same text in both): one encoder and one decoder per entry of \<open>self.input_dims\<close>, and
  for each \<open>i\<close> in \<open>range(self.n_views)\<close> one Adam optimizer over
  \<open>list(self.encoders[i].parameters()) + list(self.decoders[i].parameters())\<close>.
  \<open>parameters()\<close> belongs to the missing module classes: \<open>ep i\<close> and \<open>dp i\<close> are the
  parameter lists of the module at position \<open>i\<close> of \<open>self.encoders\<close> and of
  \<open>self.decoders\<close>. Reading position \<open>i\<close> of a shorter list raises IndexError.
\<close>

definition build_modules ::
  "(nat \<Rightarrow> 'p list) \<Rightarrow> (nat \<Rightarrow> 'p list) \<Rightarrow> nat list \<Rightarrow> 'p vae \<Rightarrow> error + 'p vae" where
  "build_modules ep dp hidden m =
     (let m1 = m\<lparr>encoders :=
                  map (\<lambda>d. \<lparr>enc_input_dim = d, enc_hidden_layer_dims = hidden,
                             enc_variational = True, enc_non_linear = non_linear m,
                             enc_sparse = sparse m, enc_log_alpha = log_alpha m\<rparr>)
                      (input_dims m)\<rparr>;
          m2 = m1\<lparr>decoders :=
                  map (\<lambda>d. \<lparr>dec_input_dim = d, dec_hidden_layer_dims = hidden,
                             dec_variational = True, dec_non_linear = non_linear m1\<rparr>)
                      (input_dims m1)\<rparr>
      in if n_views m2 \<le> length (encoders m2) \<and> n_views m2 \<le> length (decoders m2)
         then Inr (m2\<lparr>optimizers :=
                        map (\<lambda>i. \<lparr>opt_params = ep i @ dp i, opt_lr = learning_rate m2\<rparr>)
                            [0..<n_views m2]\<rparr>)
         else Inl IndexError)"

text \<open>
  \<open>VAE.__init__\<close> of \<^verbatim>\<open>vae.py\<close>. \<open>kwargs\<close> is the effect of
  \<open>self.__dict__.update(kwargs)\<close> on the attributes set so far (the identity for a call
  without extra keywords); attributes assigned later in the constructor overwrite it.
\<close>

definition VAE_init ::
  "(nat \<Rightarrow> real) \<Rightarrow> (nat \<Rightarrow> 'p list) \<Rightarrow> (nat \<Rightarrow> 'p list) \<Rightarrow>
   nat list \<Rightarrow> nat \<Rightarrow> nat list \<Rightarrow> bool \<Rightarrow> real \<Rightarrow> real \<Rightarrow> real \<Rightarrow> bool \<Rightarrow>
   ('p vae \<Rightarrow> 'p vae) \<Rightarrow> error + 'p vae" where
  "VAE_init normal ep dp input_dims_arg z_dim_arg hidden_layer_dims non_linear_arg
     learning_rate_arg beta_arg threshold_arg SNP_model_arg kwargs =
     (let hidden = hidden_layer_dims @ [z_dim_arg];
          m0 = \<lparr>model_type = ''VAE'', input_dims = input_dims_arg, z_dim = z_dim_arg,
                non_linear = non_linear_arg, beta = beta_arg,
                learning_rate = learning_rate_arg, SNP_model = SNP_model_arg,
                joint_representation = False, join_type = None, join_z = None,
                threshold = threshold_arg, sparse = False, log_alpha = None,
                n_views = 0, encoders = [], decoders = [], optimizers = []\<rparr>;
          m1 = set_sparsity normal ''sparse_VAE'' m0;
          m2 = m1\<lparr>n_views := length input_dims_arg\<rparr>;
          m3 = kwargs m2
      in build_modules ep dp hidden m3)"

text \<open>
  \<open>VAE.__init__\<close> of \<^verbatim>\<open>joint_vae.py\<close>. The first component of the result is what
  was printed. A \<open>join_type\<close> other than \<open>'PoE'\<close> and \<open>'Mean'\<close> prints a line and calls
  \<open>exit()\<close>, which raises SystemExit: no instance is built.
\<close>

definition joint_VAE_init ::
  "(nat \<Rightarrow> real) \<Rightarrow> (nat \<Rightarrow> 'p list) \<Rightarrow> (nat \<Rightarrow> 'p list) \<Rightarrow>
   nat list \<Rightarrow> nat \<Rightarrow> nat list \<Rightarrow> bool \<Rightarrow> real \<Rightarrow> real \<Rightarrow> real \<Rightarrow> bool \<Rightarrow> string \<Rightarrow>
   ('p vae \<Rightarrow> 'p vae) \<Rightarrow> string list \<times> (error + 'p vae)" where
  "joint_VAE_init normal ep dp input_dims_arg z_dim_arg hidden_layer_dims non_linear_arg
     learning_rate_arg beta_arg threshold_arg SNP_model_arg join_type_arg kwargs =
     (let hidden = hidden_layer_dims @ [z_dim_arg];
          m0 = \<lparr>model_type = ''joint_VAE'', input_dims = input_dims_arg, z_dim = z_dim_arg,
                non_linear = non_linear_arg, beta = beta_arg,
                learning_rate = learning_rate_arg, SNP_model = SNP_model_arg,
                joint_representation = True, join_type = Some join_type_arg,
                join_z = None,
                threshold = threshold_arg, sparse = False, log_alpha = None,
                n_views = 0, encoders = [], decoders = [], optimizers = []\<rparr>
      in if join_type_arg = ''PoE'' \<or> join_type_arg = ''Mean''
         then
           (let m1 = (if join_type_arg = ''PoE''
                      then m0\<lparr>join_z := Some ProductOfExperts\<rparr>
                      else m0\<lparr>join_z := Some MeanRepresentation\<rparr>);
                m2 = set_sparsity normal ''joint_sparse_VAE'' m1;
                m3 = kwargs m2;
                m4 = m3\<lparr>n_views := length input_dims_arg\<rparr>
            in ([], build_modules ep dp hidden m4))
         else ([''Incorrect join method''], Inl SystemExit))"

section \<open>Single-precision arithmetic\<close>

text \<open>
  The sparsity gate computes on float32 tensors. A float32 value is a finite number,
  an infinity or NaN; the two zeros are not told apart. A finite result is the exact
  result rounded to the nearest number with a significand of 24 bits and an exponent
  from -126 (below it the spacing stays that of the subnormal numbers), ties going to
  the even significand; a result that rounds to \<open>2 ^ 128\<close> or beyond is an infinity.
\<close>

datatype f32 = Fin real | PInf | NInf | NaN

definition pow2 :: "int \<Rightarrow> real" where
  "pow2 k = (if 0 \<le> k then 2 ^ nat k else 1 / 2 ^ nat (- k))"

text \<open>The nearest integer, the even one of two equally near.\<close>

definition half_even :: "real \<Rightarrow> int" where
  "half_even q =
     (let f = \<lfloor>q\<rfloor>; r = q - of_int f
      in if r < 1 / 2 then f else if 1 / 2 < r then f + 1 else if even f then f else f + 1)"

text \<open>
  The binary exponent of a positive number, not below -126, and the number rounded to
  24 bits at that exponent.
\<close>

definition bexp :: "real \<Rightarrow> int" where
  "bexp x = max \<lfloor>log 2 x\<rfloor> (- 126)"

definition round_val :: "real \<Rightarrow> real" where
  "round_val x = of_int (half_even (x / pow2 (bexp x - 23))) * pow2 (bexp x - 23)"

definition round_pos :: "real \<Rightarrow> f32" where
  "round_pos x = (let y = round_val x in if pow2 128 \<le> y then PInf else Fin y)"

fun f32_neg :: "f32 \<Rightarrow> f32" where
  "f32_neg (Fin x) = Fin (- x)"
| "f32_neg PInf = NInf"
| "f32_neg NInf = PInf"
| "f32_neg NaN = NaN"

text \<open>The float32 value of a real number; also the conversion of a Python float.\<close>

definition round32 :: "real \<Rightarrow> f32" where
  "round32 x =
     (if x = 0 then Fin 0 else if 0 < x then round_pos x else f32_neg (round_pos (- x)))"

text \<open>Addition, division and the comparisons, with their special values.\<close>

fun f32_add :: "f32 \<Rightarrow> f32 \<Rightarrow> f32" where
  "f32_add (Fin x) (Fin y) = round32 (x + y)"
| "f32_add NaN b = NaN"
| "f32_add a NaN = NaN"
| "f32_add PInf NInf = NaN"
| "f32_add NInf PInf = NaN"
| "f32_add PInf b = PInf"
| "f32_add a PInf = PInf"
| "f32_add NInf b = NInf"
| "f32_add a NInf = NInf"

fun f32_div :: "f32 \<Rightarrow> f32 \<Rightarrow> f32" where
  "f32_div (Fin x) (Fin y) =
     (if y = 0 then (if x = 0 then NaN else if 0 < x then PInf else NInf)
      else round32 (x / y))"
| "f32_div NaN b = NaN"
| "f32_div a NaN = NaN"
| "f32_div (Fin x) b = Fin 0"
| "f32_div PInf (Fin y) = (if y < 0 then NInf else PInf)"
| "f32_div NInf (Fin y) = (if y < 0 then PInf else NInf)"
| "f32_div a b = NaN"

fun f32_less :: "f32 \<Rightarrow> f32 \<Rightarrow> bool" where
  "f32_less (Fin x) (Fin y) = (x < y)"
| "f32_less NaN b = False"
| "f32_less a NaN = False"
| "f32_less NInf NInf = False"
| "f32_less NInf b = True"
| "f32_less a PInf = (a \<noteq> PInf)"
| "f32_less a b = False"

fun f32_le :: "f32 \<Rightarrow> f32 \<Rightarrow> bool" where
  "f32_le (Fin x) (Fin y) = (x \<le> y)"
| "f32_le NaN b = False"
| "f32_le a NaN = False"
| "f32_le NInf b = True"
| "f32_le a PInf = True"
| "f32_le a b = False"

text \<open>
  \<open>torch.exp\<close> on an entry of \<open>log_alpha\<close> (a finite float32 value, given by the real
  it denotes), taken as the correctly rounded exponential.
\<close>

definition f32_exp :: "real \<Rightarrow> f32" where
  "f32_exp a = round32 (exp a)"

section \<open>Sparsity gate\<close>

text \<open>
  \<open>dropout\<close> (\<^verbatim>\<open>vae.py\<close> 100-108, \<^verbatim>\<open>joint_vae.py\<close> 113-122, the same text): raises
  NotImplementedError on a model that is not sparse. \<open>None.detach()\<close> raises
  AttributeError. \<open>alpha + 1\<close> and \<open>alpha / (alpha + 1)\<close> are float32 operations.
\<close>

definition dropout :: "'p vae \<Rightarrow> error + f32 list" where
  "dropout m =
     (if sparse m
      then (case log_alpha m of
              None \<Rightarrow> Inl AttributeError
            | Some la \<Rightarrow>
                (let alpha = map f32_exp la
                 in Inr (map (\<lambda>a. f32_div a (f32_add a (Fin 1))) alpha)))
      else Inl NotImplementedError)"

text \<open>
  Python objects live in a store, so that writing into a tensor is seen through every
  reference to it. A latent \<open>z\<close> is a reference: to a tensor (joint representation) or
  to a list of references to tensors (one latent per view).
\<close>

datatype pyobj = Tensor tensor | PyList "nat list"

type_synonym store = "nat \<Rightarrow> pyobj"

text \<open>
  \<open>t[:, cols] = 0\<close> with a boolean tensor \<open>cols\<close> over the columns: \<open>cols\<close> must be as
  long as the rows (IndexError otherwise); the columns where it is True are set to 0 in
  every row. A tensor without rows does not record its width: it passes the check.
  (For a single latent dimension \<open>squeeze()\<close> leaves a scalar mask, which zeroes all
  columns or none: on a latent of width 1 the same result.)
\<close>

definition put_zero :: "bool list \<Rightarrow> tensor \<Rightarrow> tensor" where
  "put_zero msk t = map (\<lambda>row. map2 (\<lambda>b v. if b then 0 else v) msk row) t"

definition zero_columns :: "bool list \<Rightarrow> tensor \<Rightarrow> error + tensor" where
  "zero_columns msk t =
     (if list_all (\<lambda>row. length row = length msk) t
      then Inr (put_zero msk t)
      else Inl IndexError)"

text \<open>
  The loop \<open>for _ in z: _[:, ~keep] = 0\<close> over a list of references. An element that is
  a list raises TypeError (a list is not indexed by a tuple). An exception leaves the
  writes made so far in the store.
\<close>

fun zero_each :: "bool list \<Rightarrow> nat list \<Rightarrow> store \<Rightarrow> (error + unit) \<times> store" where
  "zero_each msk [] s = (Inr (), s)"
| "zero_each msk (a # as) s =
     (case s a of
        Tensor t \<Rightarrow>
          (case zero_columns msk t of
             Inl e \<Rightarrow> (Inl e, s)
           | Inr t' \<Rightarrow> zero_each msk as (s(a := Tensor t')))
      | PyList _ \<Rightarrow> (Inl TypeError, s))"

text \<open>
  \<open>apply_threshold\<close> (\<^verbatim>\<open>vae.py\<close> 110-125, \<^verbatim>\<open>joint_vae.py\<close> 124-139, the same but for
  a local name). The threshold is the attribute \<open>self.threshold\<close>; in
  \<open>dropout < self.threshold\<close> the Python float is converted to the type of the tensor
  and the comparison is the one of float32 (false on NaN). The result is the returned
  reference, or the exception, and the store afterwards.
  With \<open>joint_representation\<close>, a \<open>z\<close> that is a list raises TypeError. Without it, a
  \<open>z\<close> that is a tensor is iterated row by row, and \<open>_[:, ~keep]\<close> on a row (one
  dimension) raises IndexError; without rows the loop body never runs.
\<close>

definition apply_threshold :: "'p vae \<Rightarrow> nat \<Rightarrow> store \<Rightarrow> (error + nat) \<times> store" where
  "apply_threshold m z s =
     (if \<not> threshold m \<le> 1 then (Inl AssertionError, s)
      else
        (case dropout m of
           Inl e \<Rightarrow> (Inl e, s)
         | Inr d \<Rightarrow>
             (let keep = map (\<lambda>r. f32_less r (round32 (threshold m))) d;
                  not_keep = map Not keep
              in if joint_representation m
                 then (case s z of
                         Tensor t \<Rightarrow>
                           (case zero_columns not_keep t of
                              Inl e \<Rightarrow> (Inl e, s)
                            | Inr t' \<Rightarrow> (Inr z, s(z := Tensor t')))
                       | PyList _ \<Rightarrow> (Inl TypeError, s))
                 else (case s z of
                         PyList as \<Rightarrow>
                           (case zero_each not_keep as s of
                              (Inl e, s') \<Rightarrow> (Inl e, s')
                            | (Inr _, s') \<Rightarrow> (Inr z, s'))
                       | Tensor t \<Rightarrow>
                           (if t = [] then (Inr z, s) else (Inl IndexError, s))))))"

section \<open>Sampling\<close>

text \<open>
  \<open>torch.randn_like(mu)\<close>: a tensor of the shape of \<open>mu\<close> filled from the random source
  \<open>randn\<close>, which gives the number drawn for a row and a column.
\<close>

definition randn_like :: "(nat \<Rightarrow> nat \<Rightarrow> real) \<Rightarrow> tensor \<Rightarrow> tensor" where
  "randn_like randn mu =
     map (\<lambda>b. map (\<lambda>j. randn b j) [0..<length (mu ! b)]) [0..<length mu]"

definition shape :: "tensor \<Rightarrow> nat list" where
  "shape t = map length t"

text \<open>
  Elementwise operations on two tensors of one shape. Operands of different shapes are
  outside the model (torch broadcasts them or raises): the result is \<open>None\<close>.
\<close>

definition elementwise :: "(real \<Rightarrow> real \<Rightarrow> real) \<Rightarrow> tensor \<Rightarrow> tensor \<Rightarrow> tensor option" where
  "elementwise f a b =
     (if shape a = shape b then Some (map2 (map2 f) a b) else None)"

definition tensor_exp_half :: "tensor \<Rightarrow> tensor" where
  "tensor_exp_half logvar = map (map (\<lambda>v. exp (0.5 * v))) logvar"

text \<open>\<open>reparameterise\<close> of \<^verbatim>\<open>joint_vae.py\<close> (90-93).\<close>

definition joint_reparameterise ::
  "(nat \<Rightarrow> nat \<Rightarrow> real) \<Rightarrow> tensor \<Rightarrow> tensor \<Rightarrow> tensor option" where
  "joint_reparameterise randn mu logvar =
     (let std = tensor_exp_half logvar;
          eps = randn_like randn mu
      in case elementwise (*) eps std of
           None \<Rightarrow> None
         | Some es \<Rightarrow> elementwise (+) mu es)"

text \<open>
  \<open>reparameterise\<close> of \<^verbatim>\<open>vae.py\<close> (74-80): one sample per view, \<open>i\<close> running over
  \<open>range(len(mu))\<close>; \<open>logvar[i]\<close> raises IndexError on a shorter list. \<open>randn i\<close> is the
  random source of the \<open>i\<close>-th call of \<open>randn_like\<close>. The outer option is the model's
  (shapes), the inner sum the program's.
\<close>

fun reparameterise_loop ::
  "(nat \<Rightarrow> nat \<Rightarrow> nat \<Rightarrow> real) \<Rightarrow> tensor list \<Rightarrow> tensor list \<Rightarrow> nat list \<Rightarrow> tensor list \<Rightarrow>
   (error + tensor list) option" where
  "reparameterise_loop randn mu logvar [] z = Some (Inr z)"
| "reparameterise_loop randn mu logvar (i # is) z =
     (if i < length logvar \<and> i < length mu
      then (case joint_reparameterise (randn i) (mu ! i) (logvar ! i) of
              None \<Rightarrow> None
            | Some zi \<Rightarrow> reparameterise_loop randn mu logvar is (z @ [zi]))
      else Some (Inl IndexError))"

definition reparameterise ::
  "(nat \<Rightarrow> nat \<Rightarrow> nat \<Rightarrow> real) \<Rightarrow> tensor list \<Rightarrow> tensor list \<Rightarrow> (error + tensor list) option" where
  "reparameterise randn mu logvar =
     reparameterise_loop randn mu logvar [0..<length mu] []"

text \<open>\<open>torch.distributions.Normal\<close>, by its two attributes.\<close>

record normal =
  loc :: tensor
  scale :: tensor

definition sample_from_normal :: "normal \<Rightarrow> tensor" where
  "sample_from_normal nrm = loc nrm"

section \<open>Losses\<close>

text \<open>
  \<open>t.sum(dim=1)\<close> and the mean of a 1-D tensor. On an empty batch torch's mean is NaN;
  the model's value there carries no meaning.
\<close>

definition sum_dim1 :: "tensor \<Rightarrow> real list" where
  "sum_dim1 t = map sum_list t"

definition torch_mean :: "real list \<Rightarrow> real" where
  "torch_mean xs = sum_list xs / real (length xs)"

text \<open>What \<open>forward\<close> returns: the dict with the keys \<open>x_recon\<close>, \<open>mu\<close>, \<open>logvar\<close>.\<close>

record ('r, 't) fwd_rtn =
  x_recon :: 'r
  mu :: 't
  logvar :: 't

text \<open>
  \<open>compute_kl\<close> and \<open>compute_kl_sparse\<close> (\<^verbatim>\<open>utils/kl_utils.py\<close>) and the \<open>log_prob\<close> of
  a reconstruction are not part of the sources at hand: they are arguments
  (\<open>ck\<close>, \<open>cks\<close>, \<open>log_prob\<close>).
\<close>

text \<open>\<open>calc_kl\<close> of \<^verbatim>\<open>joint_vae.py\<close> (141-153).\<close>

definition joint_calc_kl ::
  "(tensor \<Rightarrow> tensor \<Rightarrow> real) \<Rightarrow> (tensor \<Rightarrow> tensor \<Rightarrow> real) \<Rightarrow> 'p vae \<Rightarrow> tensor \<Rightarrow> tensor \<Rightarrow> real" where
  "joint_calc_kl ck cks m mu_t logvar_t =
     (let kl = 0;
          kl = kl + (if sparse m then cks mu_t logvar_t else ck mu_t logvar_t)
      in beta m * kl)"

text \<open>\<open>calc_ll\<close> of \<^verbatim>\<open>joint_vae.py\<close> (155-160); \<open>is\<close> is what is left of \<open>range(n_views)\<close>.\<close>

fun joint_calc_ll_loop ::
  "('d \<Rightarrow> tensor \<Rightarrow> tensor) \<Rightarrow> tensor list \<Rightarrow> 'd list \<Rightarrow> nat list \<Rightarrow> real \<Rightarrow> error + real" where
  "joint_calc_ll_loop log_prob x xr [] ll = Inr ll"
| "joint_calc_ll_loop log_prob x xr (i # is) ll =
     (if i < length xr \<and> i < length x
      then joint_calc_ll_loop log_prob x xr is
             (ll + torch_mean (sum_dim1 (log_prob (xr ! i) (x ! i))))
      else Inl IndexError)"

definition joint_calc_ll ::
  "('d \<Rightarrow> tensor \<Rightarrow> tensor) \<Rightarrow> 'p vae \<Rightarrow> tensor list \<Rightarrow> 'd list \<Rightarrow> error + real" where
  "joint_calc_ll log_prob m x xr = joint_calc_ll_loop log_prob x xr [0..<n_views m] 0"

text \<open>
  \<open>loss_function\<close> of \<^verbatim>\<open>joint_vae.py\<close> (174-186). The returned dict is the list of
  its items, in insertion order.
\<close>

definition joint_loss_function ::
  "(tensor \<Rightarrow> tensor \<Rightarrow> real) \<Rightarrow> (tensor \<Rightarrow> tensor \<Rightarrow> real) \<Rightarrow> ('d \<Rightarrow> tensor \<Rightarrow> tensor) \<Rightarrow>
   'p vae \<Rightarrow> tensor list \<Rightarrow> ('d list, tensor) fwd_rtn \<Rightarrow> error + (string \<times> real) list" where
  "joint_loss_function ck cks log_prob m x fwd =
     (let kl = joint_calc_kl ck cks m (mu fwd) (logvar fwd)
      in case joint_calc_ll log_prob m x (x_recon fwd) of
           Inl e \<Rightarrow> Inl e
         | Inr recon \<Rightarrow>
             (let total = kl - recon
              in Inr [(''total'', total), (''kl'', kl), (''ll'', recon)]))"

text \<open>\<open>calc_kl\<close> of \<^verbatim>\<open>vae.py\<close> (127-140): the sum over the views, times \<open>beta\<close>.\<close>

fun calc_kl_loop ::
  "(tensor \<Rightarrow> tensor \<Rightarrow> real) \<Rightarrow> (tensor \<Rightarrow> tensor \<Rightarrow> real) \<Rightarrow> 'p vae \<Rightarrow>
   tensor list \<Rightarrow> tensor list \<Rightarrow> nat list \<Rightarrow> real \<Rightarrow> error + real" where
  "calc_kl_loop ck cks m mus logvars [] kl = Inr kl"
| "calc_kl_loop ck cks m mus logvars (i # is) kl =
     (if i < length mus \<and> i < length logvars
      then calc_kl_loop ck cks m mus logvars is
             (kl + (if sparse m then cks (mus ! i) (logvars ! i)
                    else ck (mus ! i) (logvars ! i)))
      else Inl IndexError)"

definition calc_kl ::
  "(tensor \<Rightarrow> tensor \<Rightarrow> real) \<Rightarrow> (tensor \<Rightarrow> tensor \<Rightarrow> real) \<Rightarrow> 'p vae \<Rightarrow>
   tensor list \<Rightarrow> tensor list \<Rightarrow> error + real" where
  "calc_kl ck cks m mus logvars =
     (case calc_kl_loop ck cks m mus logvars [0..<n_views m] 0 of
        Inl e \<Rightarrow> Inl e
      | Inr kl \<Rightarrow> Inr (beta m * kl))"

text \<open>
  \<open>calc_ll\<close> of \<^verbatim>\<open>vae.py\<close> (142-149): \<open>x_recon[i][j]\<close> is view \<open>i\<close> decoded from the
  latent of view \<open>j\<close>; \<open>ps\<close> is what is left of the pairs \<open>(i, j)\<close>, \<open>i\<close> outermost.
\<close>

fun calc_ll_loop ::
  "('d \<Rightarrow> tensor \<Rightarrow> tensor) \<Rightarrow> tensor list \<Rightarrow> 'd list list \<Rightarrow> (nat \<times> nat) list \<Rightarrow> real \<Rightarrow>
   error + real" where
  "calc_ll_loop log_prob x xr [] ll = Inr ll"
| "calc_ll_loop log_prob x xr ((i, j) # ps) ll =
     (if i < length xr \<and> j < length (xr ! i) \<and> i < length x
      then calc_ll_loop log_prob x xr ps
             (ll + torch_mean (sum_dim1 (log_prob (xr ! i ! j) (x ! i))))
      else Inl IndexError)"

definition calc_ll ::
  "('d \<Rightarrow> tensor \<Rightarrow> tensor) \<Rightarrow> 'p vae \<Rightarrow> tensor list \<Rightarrow> 'd list list \<Rightarrow> error + real" where
  "calc_ll log_prob m x xr =
     calc_ll_loop log_prob x xr (List.product [0..<n_views m] [0..<n_views m]) 0"

text \<open>\<open>loss_function\<close> of \<^verbatim>\<open>vae.py\<close> (154-166).\<close>

definition loss_function ::
  "(tensor \<Rightarrow> tensor \<Rightarrow> real) \<Rightarrow> (tensor \<Rightarrow> tensor \<Rightarrow> real) \<Rightarrow> ('d \<Rightarrow> tensor \<Rightarrow> tensor) \<Rightarrow>
   'p vae \<Rightarrow> tensor list \<Rightarrow> ('d list list, tensor list) fwd_rtn \<Rightarrow>
   error + (string \<times> real) list" where
  "loss_function ck cks log_prob m x fwd =
     (case calc_kl ck cks m (mu fwd) (logvar fwd) of
        Inl e \<Rightarrow> Inl e
      | Inr kl \<Rightarrow>
          (case calc_ll log_prob m x (x_recon fwd) of
             Inl e \<Rightarrow> Inl e
           | Inr recon \<Rightarrow>
               (let total = kl - recon
                in Inr [(''total'', total), (''kl'', kl), (''ll'', recon)])))"

section \<open>The shared and private model (DVCCA)\<close>

text \<open>
  \<open>hydra.utils.instantiate(self.cfg.encoder, input_dim=..., z_dim=..., sparse=...,
  log_alpha=...)\<close>: the encoder class is chosen by the configuration \<open>'c\<close>; the module
  is recorded by the arguments it was built with.
\<close>

record 'c dv_encoder =
  de_cfg :: 'c
  de_input_dim :: nat
  de_z_dim :: nat
  de_sparse :: bool
  de_log_alpha :: "real list option"

text \<open>
  The attributes of a \<open>DVCCA\<close> instance that the sources at hand read or write (the
  base class \<open>BaseModelVAE\<close> sets them before it calls \<open>_setencoders\<close>). The fields
  \<open>dv_x\<close> are the attributes \<open>self.x\<close>; \<open>'pr\<close> is the type of the prior.
\<close>

record ('c, 'pr) dvcca =
  cfg_encoder :: 'c
  input_dim :: "nat list"
  dv_z_dim :: nat
  dv_sparse :: bool
  dv_threshold :: real
  dv_private :: bool
  dv_log_alpha :: "real list option"
  dv_encoders :: "'c dv_encoder list"
  private_encoders :: "'c dv_encoder list"
  dv_n_views :: nat
  dv_beta :: real
  prior :: 'pr

text \<open>
  \<open>DVCCA._setencoders\<close> (\<^verbatim>\<open>dvcca.py\<close> 20-64). \<open>normal1\<close> and \<open>normal2\<close> are the random
  sources of the two \<open>normal_\<close> calls. \<open>self.input_dim[0]\<close> raises IndexError on an empty
  list. The encoders are built before \<open>z_dim\<close> is doubled and before the second
  \<open>log_alpha\<close> is drawn.
\<close>

definition setencoders ::
  "(nat \<Rightarrow> real) \<Rightarrow> (nat \<Rightarrow> real) \<Rightarrow> ('c, 'pr) dvcca \<Rightarrow> error + ('c, 'pr) dvcca" where
  "setencoders normal1 normal2 m =
     (let m1 = (if dv_sparse m \<and> dv_threshold m \<noteq> 0
                then m\<lparr>dv_log_alpha := Some (new_log_alpha normal1 (dv_z_dim m))\<rparr>
                else m\<lparr>dv_sparse := False, dv_log_alpha := None\<rparr>)
      in case input_dim m1 of
           [] \<Rightarrow> Inl IndexError
         | d0 # _ \<Rightarrow>
             (let m2 = m1\<lparr>dv_encoders :=
                          [\<lparr>de_cfg = cfg_encoder m1, de_input_dim = d0,
                            de_z_dim = dv_z_dim m1, de_sparse = dv_sparse m1,
                            de_log_alpha = dv_log_alpha m1\<rparr>]\<rparr>
              in if dv_private m2
                 then
                   (let m3 = m2\<lparr>private_encoders :=
                                map (\<lambda>d. \<lparr>de_cfg = cfg_encoder m2, de_input_dim = d,
                                           de_z_dim = dv_z_dim m2, de_sparse = dv_sparse m2,
                                           de_log_alpha = dv_log_alpha m2\<rparr>)
                                    (input_dim m2)\<rparr>;
                        m4 = m3\<lparr>dv_z_dim := dv_z_dim m3 + dv_z_dim m3\<rparr>
                    in Inr (if dv_sparse m4 \<and> dv_threshold m4 \<noteq> 0
                            then m4\<lparr>dv_log_alpha :=
                                      Some (new_log_alpha normal2 (dv_z_dim m4))\<rparr>
                            else m4))
                 else Inr m2))"

text \<open>What \<open>DVCCA.forward\<close> returns: the dict with the keys \<open>px_zs\<close> and \<open>qz_x\<close>.\<close>

record ('d, 'q) dvcca_fwd_rtn =
  px_zs :: "'d list list"
  qz_x :: "'q list"

text \<open>
  \<open>DVCCA.calc_kl\<close> (137-148). The distribution classes are not part of the sources at
  hand: \<open>skl q\<close> stands for \<open>q.sparse_kl_divergence()\<close>, \<open>kld q p\<close> for
  \<open>q.kl_divergence(p)\<close>, \<open>loglik d x\<close> for \<open>d.log_likelihood(x)\<close>.
  \<open>t.sum(1, keepdims=True).mean(0)\<close> has one entry, the mean of the row sums.
\<close>

fun dvcca_calc_kl_loop ::
  "('q \<Rightarrow> tensor) \<Rightarrow> ('q \<Rightarrow> 'pr \<Rightarrow> tensor) \<Rightarrow> ('c, 'pr) dvcca \<Rightarrow> 'q list \<Rightarrow> nat list \<Rightarrow>
   real \<Rightarrow> error + real" where
  "dvcca_calc_kl_loop skl kld m qs [] kl = Inr kl"
| "dvcca_calc_kl_loop skl kld m qs (i # is) kl =
     (if i < length qs
      then dvcca_calc_kl_loop skl kld m qs is
             (kl + torch_mean (sum_dim1 (if dv_sparse m then skl (qs ! i)
                                         else kld (qs ! i) (prior m))))
      else Inl IndexError)"

definition dvcca_calc_kl ::
  "('q \<Rightarrow> tensor) \<Rightarrow> ('q \<Rightarrow> 'pr \<Rightarrow> tensor) \<Rightarrow> ('c, 'pr) dvcca \<Rightarrow> 'q list \<Rightarrow> error + real" where
  "dvcca_calc_kl skl kld m qs =
     (let n = (if dv_private m then dv_n_views m else 1)
      in case dvcca_calc_kl_loop skl kld m qs [0..<n] 0 of
           Inl e \<Rightarrow> Inl e
         | Inr kl \<Rightarrow> Inr (dv_beta m * kl))"

text \<open>\<open>DVCCA.calc_ll\<close> (150-154): \<open>px_zs[i][0]\<close> for every view.\<close>

fun dvcca_calc_ll_loop ::
  "('d \<Rightarrow> tensor \<Rightarrow> tensor) \<Rightarrow> tensor list \<Rightarrow> 'd list list \<Rightarrow> nat list \<Rightarrow> real \<Rightarrow>
   error + real" where
  "dvcca_calc_ll_loop loglik x ps [] ll = Inr ll"
| "dvcca_calc_ll_loop loglik x ps (i # is) ll =
     (if i < length ps \<and> 0 < length (ps ! i) \<and> i < length x
      then dvcca_calc_ll_loop loglik x ps is
             (ll + torch_mean (sum_dim1 (loglik (ps ! i ! 0) (x ! i))))
      else Inl IndexError)"

definition dvcca_calc_ll ::
  "('d \<Rightarrow> tensor \<Rightarrow> tensor) \<Rightarrow> ('c, 'pr) dvcca \<Rightarrow> tensor list \<Rightarrow> 'd list list \<Rightarrow> error + real" where
  "dvcca_calc_ll loglik m x ps = dvcca_calc_ll_loop loglik x ps [0..<dv_n_views m] 0"

text \<open>\<open>DVCCA.loss_function\<close> (128-135): the total is stored under the key \<open>loss\<close>.\<close>

definition dvcca_loss_function ::
  "('q \<Rightarrow> tensor) \<Rightarrow> ('q \<Rightarrow> 'pr \<Rightarrow> tensor) \<Rightarrow> ('d \<Rightarrow> tensor \<Rightarrow> tensor) \<Rightarrow> ('c, 'pr) dvcca \<Rightarrow>
   tensor list \<Rightarrow> ('d, 'q) dvcca_fwd_rtn \<Rightarrow> error + (string \<times> real) list" where
  "dvcca_loss_function skl kld loglik m x fwd =
     (case dvcca_calc_kl skl kld m (qz_x fwd) of
        Inl e \<Rightarrow> Inl e
      | Inr kl \<Rightarrow>
          (case dvcca_calc_ll loglik m x (px_zs fwd) of
             Inl e \<Rightarrow> Inl e
           | Inr ll \<Rightarrow>
               (let total = kl - ll
                in Inr [(''loss'', total), (''kl'', kl), (''ll'', ll)])))"

section \<open>Batches a loss function accepts\<close>

text \<open>
  A batch is valid for a model when every list the loss function indexes by a view
  number is long enough: one entry per view in \<open>x\<close> and in what \<open>forward\<close> returned.
\<close>

definition joint_valid :: "'p vae \<Rightarrow> tensor list \<Rightarrow> ('d list, tensor) fwd_rtn \<Rightarrow> bool" where
  "joint_valid m x fwd = (n_views m \<le> length x \<and> n_views m \<le> length (x_recon fwd))"

definition vae_valid ::
  "'p vae \<Rightarrow> tensor list \<Rightarrow> ('d list list, tensor list) fwd_rtn \<Rightarrow> bool" where
  "vae_valid m x fwd =
     (n_views m \<le> length x \<and> n_views m \<le> length (mu fwd) \<and>
      n_views m \<le> length (logvar fwd) \<and> n_views m \<le> length (x_recon fwd) \<and>
      list_all (\<lambda>r. n_views m \<le> length r) (take (n_views m) (x_recon fwd)))"

definition dvcca_valid ::
  "('c, 'pr) dvcca \<Rightarrow> tensor list \<Rightarrow> ('d, 'q) dvcca_fwd_rtn \<Rightarrow> bool" where
  "dvcca_valid m x fwd =
     ((if dv_private m then dv_n_views m else 1) \<le> length (qz_x fwd) \<and>
      dv_n_views m \<le> length x \<and> dv_n_views m \<le> length (px_zs fwd) \<and>
      list_all (\<lambda>r. r \<noteq> []) (take (dv_n_views m) (px_zs fwd)))"

section \<open>The gate as the specification words it\<close>

text \<open>
  The dropout rate of a latent dimension, \<open>exp(log_alpha) / (exp(log_alpha) + 1)\<close>, in
  float32.
\<close>

definition rate32 :: "real \<Rightarrow> f32" where
  "rate32 a = (let alpha = f32_exp a in f32_div alpha (f32_add alpha (Fin 1)))"

text \<open>
  Every latent dimension \<open>j\<close> whose dropout rate is at least the threshold is zero in
  every row; every other entry is the one of \<open>t\<close>.
\<close>

definition spec_apply_threshold :: "real \<Rightarrow> real list \<Rightarrow> tensor \<Rightarrow> tensor" where
  "spec_apply_threshold th la t =
     map (\<lambda>row. map (\<lambda>j. if f32_le (round32 th) (rate32 (la ! j)) then 0 else row ! j)
                 [0..<length la]) t"

text \<open>
  Every latent dimension whose dropout rate is below the threshold keeps its entries;
  every other one (a rate at or above the threshold, or NaN) is zero in every row.
\<close>

definition keep_below :: "real \<Rightarrow> real list \<Rightarrow> tensor \<Rightarrow> tensor" where
  "keep_below th la t =
     map (\<lambda>row. map (\<lambda>j. if f32_less (rate32 (la ! j)) (round32 th) then row ! j else 0)
                 [0..<length la]) t"

section \<open>Example instances\<close>

text \<open>
  Two views of 10 and 15 features and two latent dimensions. \<open>ex_normal\<close> gives a
  \<open>log_alpha\<close> of \<open>[0, 100]\<close>: the dropout rate of the first dimension is 1/2, the
  one of the second is NaN (\<open>exp(100)\<close> overflows, and infinity divided by infinity is
  NaN).
\<close>

definition ex_normal :: "nat \<Rightarrow> real" where
  "ex_normal j = (if j = 0 then 0 else 100)"

definition ex_ep :: "nat \<Rightarrow> (string \<times> nat) list" where
  "ex_ep i = [(''encoder'', i)]"

definition ex_dp :: "nat \<Rightarrow> (string \<times> nat) list" where
  "ex_dp i = [(''decoder'', i)]"

definition ex_modules :: "real \<Rightarrow> (string \<times> nat) vae \<Rightarrow> (string \<times> nat) vae" where
  "ex_modules th m =
     m\<lparr>encoders :=
         map (\<lambda>d. \<lparr>enc_input_dim = d, enc_hidden_layer_dims = [2], enc_variational = True,
                    enc_non_linear = False, enc_sparse = (th \<noteq> 0),
                    enc_log_alpha = (if th \<noteq> 0 then Some [0, 100] else None)\<rparr>) [10, 15],
       decoders :=
         map (\<lambda>d. \<lparr>dec_input_dim = d, dec_hidden_layer_dims = [2], dec_variational = True,
                    dec_non_linear = False\<rparr>) [10, 15],
       optimizers :=
         [\<lparr>opt_params = [(''encoder'', 0), (''decoder'', 0)], opt_lr = 0.002\<rparr>,
          \<lparr>opt_params = [(''encoder'', 1), (''decoder'', 1)], opt_lr = 0.002\<rparr>]\<rparr>"

text \<open>What \<open>VAE(input_dims=[10, 15], z_dim=2, threshold=th, beta=b)\<close> builds.\<close>

definition ex_vae :: "real \<Rightarrow> real \<Rightarrow> (string \<times> nat) vae" where
  "ex_vae th b =
     ex_modules th
       \<lparr>model_type = (if th \<noteq> 0 then ''sparse_VAE'' else ''VAE''), input_dims = [10, 15],
        z_dim = 2, non_linear = False, beta = b, learning_rate = 0.002, SNP_model = False,
        joint_representation = False, join_type = None, join_z = None,
        threshold = th, sparse = (th \<noteq> 0),
        log_alpha = (if th \<noteq> 0 then Some [0, 100] else None),
        n_views = 2, encoders = [], decoders = [], optimizers = []\<rparr>"

text \<open>
  What \<open>VAE(input_dims=[10, 15], z_dim=2, sparse=True)\<close> builds: the keyword sets
  \<open>sparse\<close> after the constructor has left \<open>log_alpha\<close> at \<open>None\<close>.
\<close>

definition ex_vae_kw :: "(string \<times> nat) vae" where
  "ex_vae_kw =
     (case VAE_init ex_normal ex_ep ex_dp [10, 15] 2 [] False 0.002 1 0 False
             (\<lambda>m. m\<lparr>sparse := True\<rparr>) of
        Inr m \<Rightarrow> m
      | Inl e \<Rightarrow> ex_vae 0 1)"

text \<open>The same of \<^verbatim>\<open>joint_vae.py\<close>, with \<open>join_type='PoE'\<close>.\<close>

definition ex_joint_vae :: "real \<Rightarrow> real \<Rightarrow> (string \<times> nat) vae" where
  "ex_joint_vae th b =
     ex_modules th
       \<lparr>model_type = (if th \<noteq> 0 then ''joint_sparse_VAE'' else ''joint_VAE''),
        input_dims = [10, 15],
        z_dim = 2, non_linear = False, beta = b, learning_rate = 0.002, SNP_model = False,
        joint_representation = True, join_type = Some ''PoE'',
        join_z = Some ProductOfExperts,
        threshold = th, sparse = (th \<noteq> 0),
        log_alpha = (if th \<noteq> 0 then Some [0, 100] else None),
        n_views = 2, encoders = [], decoders = [], optimizers = []\<rparr>"

text \<open>
  A store: two latent tensors at the addresses 0 and 1 and, at 2, the list of both.
\<close>

definition ex_store :: store where
  "ex_store = (\<lambda>a. PyList [])(0 := Tensor [[1, 2], [3, 4]], 1 := Tensor [[5, 6]],
                               2 := PyList [0, 1])"

section \<open>Optimizers as the specification words them\<close>

text \<open>
  An optimizer spans all \<open>n\<close> views when it holds the encoder and the decoder
  parameters of every view.
\<close>

definition spans_all_views ::
  "(nat \<Rightarrow> 'p list) \<Rightarrow> (nat \<Rightarrow> 'p list) \<Rightarrow> nat \<Rightarrow> 'p optimizer \<Rightarrow> bool" where
  "spans_all_views ep dp n opt =
     list_all (\<lambda>i. list_all (\<lambda>p. p \<in> set (opt_params opt)) (ep i @ dp i)) [0..<n]"

text \<open>
  A DVCCA instance before \<open>_setencoders\<close>: \<open>input_dims=[10, 15]\<close>, \<open>z_dim=2\<close>, private
  latents, sparse with threshold 0.2.
\<close>

definition ex_dvcca :: "(string, unit) dvcca" where
  "ex_dvcca =
     \<lparr>cfg_encoder = ''VariationalEncoder'', input_dim = [10, 15], dv_z_dim = 2,
      dv_sparse = True, dv_threshold = 0.2, dv_private = True, dv_log_alpha = None,
      dv_encoders = [], private_encoders = [], dv_n_views = 2, dv_beta = 1, prior = ()\<rparr>"

section \<open>The sample as the specification words it\<close>

text \<open>
  \<open>z = mu + eps * std\<close> with \<open>std = exp(0.5 * logvar)\<close>, entry by entry; \<open>eps b j\<close> is the
  standard normal draw for row \<open>b\<close> and column \<open>j\<close>.
\<close>

definition spec_reparameterise :: "(nat \<Rightarrow> nat \<Rightarrow> real) \<Rightarrow> tensor \<Rightarrow> tensor \<Rightarrow> tensor" where
  "spec_reparameterise eps mu_t logvar_t =
     map (\<lambda>b. map (\<lambda>j. mu_t ! b ! j + eps b j * exp (0.5 * logvar_t ! b ! j))
                [0..<length (mu_t ! b)])
         [0..<length mu_t]"

section \<open>Example batches\<close>

text \<open>
  Stand-ins for the functions that are not part of the sources at hand, used in the
  examples only. \<open>ex_compute_kl\<close> is the closed form of the KL divergence of a normal
  posterior from the standard normal, summed over the latent dimensions and averaged
  over the batch; \<open>ex_kld\<close> is the same per entry, from mean and scale. A
  reconstruction is given by its mean, and \<open>ex_log_prob\<close> is the log density of the
  unit normal around it, without its constant.
\<close>

definition ex_compute_kl :: "tensor \<Rightarrow> tensor \<Rightarrow> real" where
  "ex_compute_kl mu_t logvar_t =
     torch_mean (sum_dim1 (map2 (map2 (\<lambda>m l. - (1 + l - m * m - exp l) / 2)) mu_t logvar_t))"

definition ex_kld :: "normal \<Rightarrow> unit \<Rightarrow> tensor" where
  "ex_kld q p = map2 (map2 (\<lambda>m s. (s * s + m * m - 1) / 2 - ln s)) (loc q) (scale q)"

definition ex_log_prob :: "tensor \<Rightarrow> tensor \<Rightarrow> tensor" where
  "ex_log_prob d x = map2 (map2 (\<lambda>a v. - ((v - a) * (v - a)) / 2)) d x"

text \<open>One sample of two views, 10 and 15 features, reconstructed exactly.\<close>

definition ex_x :: "tensor list" where
  "ex_x = [[replicate 10 1], [replicate 15 1]]"

definition ex_joint_fwd :: "(tensor list, tensor) fwd_rtn" where
  "ex_joint_fwd = \<lparr>x_recon = [[replicate 10 1], [replicate 15 1]],
                   mu = [[2, 0]], logvar = [[0, 0]]\<rparr>"

definition ex_fwd :: "(tensor list list, tensor list) fwd_rtn" where
  "ex_fwd = \<lparr>x_recon = [[[replicate 10 1], [replicate 10 1]],
                         [[replicate 15 1], [replicate 15 1]]],
             mu = [[[2, 0]], [[0, 0]]], logvar = [[[0, 0]], [[0, 0]]]\<rparr>"

definition ex_dvcca_fwd :: "(tensor, normal) dvcca_fwd_rtn" where
  "ex_dvcca_fwd =
     \<lparr>px_zs = [[[replicate 10 1]], [[replicate 15 1]]],
      qz_x = [\<lparr>loc = [[2, 0, 0, 0]], scale = [[1, 1, 1, 1]]\<rparr>,
              \<lparr>loc = [[0, 0, 0, 0]], scale = [[1, 1, 1, 1]]\<rparr>]\<rparr>"

text \<open>
  A DVCCA instance with private latents, not sparse, \<open>beta = 2\<close>, after
  \<open>_setencoders\<close>.
\<close>

definition ex_dvcca_plain :: "(string, unit) dvcca" where
  "ex_dvcca_plain =
     (let pre = ex_dvcca\<lparr>dv_sparse := False, dv_threshold := 0, dv_beta := 2\<rparr>
      in case setencoders ex_normal ex_normal pre of Inr m \<Rightarrow> m | Inl e \<Rightarrow> pre)"

section \<open>Properties\<close>

subsection \<open>Single-precision arithmetic\<close>

lemma pow2_powr: "pow2 k = 2 powr (of_int k)"
  by (simp add: pow2_def powr_int)

lemma pow2_pos: "0 < pow2 k"
  by (simp add: pow2_powr)

lemma pow2_mono: "a \<le> b \<Longrightarrow> pow2 a \<le> pow2 b"
  by (simp add: pow2_powr)

lemma pow2_diff: "pow2 a / pow2 b = pow2 (a - b)"
  by (simp add: pow2_powr powr_diff)

lemma pow2_add: "pow2 (a + b) = pow2 a * pow2 b"
  by (simp add: pow2_powr powr_add)

lemma log2_pow2: "log 2 (pow2 k) = of_int k"
  by (simp add: pow2_powr)

lemma pow2_nat: "0 \<le> k \<Longrightarrow> pow2 k = of_int (2 ^ nat k)"
  by (simp add: pow2_def)

lemma pow2_times_24: "of_int (2 ^ 24) * pow2 k = pow2 (k + 24)"
proof -
  have "pow2 (k + 24) = pow2 k * pow2 24" by (rule pow2_add)
  moreover have "pow2 24 = of_int (2 ^ 24)" by (simp add: pow2_def)
  ultimately show ?thesis by simp
qed

lemma pow2_128_gt_one: "1 < pow2 128"
  by (simp add: pow2_def)

lemma half_even_nonneg: "0 \<le> q \<Longrightarrow> 0 \<le> half_even q"
  by (auto simp: half_even_def Let_def)

lemma half_even_lower: "\<lfloor>q\<rfloor> \<le> half_even q"
  by (auto simp: half_even_def Let_def)

lemma half_even_upper: "half_even q \<le> \<lfloor>q\<rfloor> + 1"
  by (auto simp: half_even_def Let_def)

lemma half_even_int: "half_even (of_int n) = n"
  by (simp add: half_even_def Let_def)

lemma half_even_near: "q - 1 / 2 \<le> of_int (half_even q)"
proof -
  have "q - of_int \<lfloor>q\<rfloor> < 1" by linarith
  then show ?thesis by (auto simp: half_even_def Let_def)
qed

lemma half_even_half_integer:
  assumes "0 < d" "d < 1 / 2"
  shows "of_int m / 2 \<le> (of_int (half_even (of_int m / 2 + d)) :: real)"
proof (cases "even m")
  case True
  then obtain k where m: "m = 2 * k" by (auto elim: evenE)
  have "\<lfloor>of_int m / 2 + d\<rfloor> = k" using assms m by (simp add: floor_unique)
  with half_even_lower[of "of_int m / 2 + d"] have "k \<le> half_even (of_int m / 2 + d)" by simp
  then have "of_int k \<le> (of_int (half_even (of_int m / 2 + d)) :: real)"
    by (simp only: of_int_le_iff)
  with m show ?thesis by simp
next
  case False
  then obtain k where m: "m = 2 * k + 1" by (auto elim: oddE)
  have q: "of_int m / 2 + d = of_int k + (1 / 2 + d)" using m by (simp add: field_simps)
  have fl: "\<lfloor>of_int m / 2 + d\<rfloor> = k" unfolding q using assms by (intro floor_unique) simp_all
  have fl': "\<lfloor>of_int k + (1 / 2 + d)\<rfloor> = k" using fl by (simp only: q)
  have "half_even (of_int k + (1 / 2 + d)) = k + 1"
    unfolding half_even_def Let_def fl' using assms by simp
  then have "half_even (of_int m / 2 + d) = k + 1" by (simp only: q)
  then have "(of_int (half_even (of_int m / 2 + d)) :: real) = of_int k + 1" by simp
  with m show ?thesis by (simp add: field_simps)
qed

lemma bexp_bounds:
  assumes "0 < x"
  shows "x < pow2 (bexp x + 1)" and "- 126 \<le> bexp x"
    and "- 126 < bexp x \<Longrightarrow> pow2 (bexp x) \<le> x"
proof -
  let ?e = "\<lfloor>log 2 x\<rfloor>"
  from assms floor_log_eq_powr_iff[of x 2 ?e]
  have b: "pow2 ?e \<le> x" "x < pow2 (?e + 1)" by (simp_all add: pow2_powr)
  have "pow2 (?e + 1) \<le> pow2 (bexp x + 1)" by (intro pow2_mono) (simp add: bexp_def)
  with b(2) show "x < pow2 (bexp x + 1)" by simp
  show "- 126 \<le> bexp x" by (simp add: bexp_def)
  assume "- 126 < bexp x"
  then have "bexp x = ?e" by (auto simp: bexp_def max_def split: if_splits)
  with b(1) show "pow2 (bexp x) \<le> x" by simp
qed

lemma bexp_eqI:
  assumes "pow2 e \<le> x" "x < pow2 (e + 1)" "- 126 \<le> e"
  shows "bexp x = e"
proof -
  have x: "0 < x" using assms(1) pow2_pos[of e] by simp
  have "\<lfloor>log 2 x\<rfloor> = e" using assms(1,2) x by (simp add: floor_log_eq_powr_iff pow2_powr)
  with assms(3) show ?thesis by (simp add: bexp_def)
qed

lemma round_val_nonneg: "0 < x \<Longrightarrow> 0 \<le> round_val x"
proof -
  assume x: "0 < x"
  have "0 \<le> x / pow2 (bexp x - 23)" using x pow2_pos[of "bexp x - 23"] by simp
  then have "0 \<le> half_even (x / pow2 (bexp x - 23))" by (rule half_even_nonneg)
  then show ?thesis using pow2_pos[of "bexp x - 23"] by (simp add: round_val_def)
qed

lemma round_pos_val:
  "round_pos x = (if pow2 128 \<le> round_val x then PInf else Fin (round_val x))"
  by (simp add: round_pos_def Let_def)

text \<open>A number that has 24 bits at its exponent rounds to itself.\<close>

lemma round_pos_exact:
  assumes "pow2 e \<le> x" "x < pow2 (e + 1)" "- 126 \<le> e" "e \<le> 127"
    and "x / pow2 (e - 23) = of_int n"
  shows "round_pos x = Fin x"
proof -
  have e: "bexp x = e" using assms(1-3) by (rule bexp_eqI)
  have "of_int n * pow2 (e - 23) = x"
    using assms(5) pow2_pos[of "e - 23"] by (simp add: field_simps)
  then have "round_val x = x"
    by (simp add: round_val_def e assms(5) half_even_int)
  moreover have "x < pow2 128"
  proof -
    have "pow2 (e + 1) \<le> pow2 128" using assms(4) by (intro pow2_mono) simp
    with assms(2) show ?thesis by simp
  qed
  ultimately show ?thesis by (simp add: round_pos_val)
qed

lemma round_pos_values:
  "round_pos 1 = Fin 1" "round_pos 2 = Fin 2" "round_pos (1 / 2) = Fin (1 / 2)"
  "round_pos (3 / 4) = Fin (3 / 4)"
proof -
  show "round_pos 1 = Fin 1"
    by (rule round_pos_exact[where e = 0 and n = "2 ^ 23"]) (simp_all add: pow2_def)
  show "round_pos 2 = Fin 2"
    by (rule round_pos_exact[where e = 1 and n = "2 ^ 23"]) (simp_all add: pow2_def)
  show "round_pos (1 / 2) = Fin (1 / 2)"
    by (rule round_pos_exact[where e = "- 1" and n = "2 ^ 23"]) (simp_all add: pow2_def)
  show "round_pos (3 / 4) = Fin (3 / 4)"
    by (rule round_pos_exact[where e = "- 1" and n = "3 * 2 ^ 22"]) (simp_all add: pow2_def)
qed

lemma round32_values:
  "round32 1 = Fin 1" "round32 2 = Fin 2" "round32 (1 / 2) = Fin (1 / 2)"
  "round32 (3 / 4) = Fin (3 / 4)" "round32 (- 1) = Fin (- 1)" "round32 0 = Fin 0"
  by (simp_all add: round32_def round_pos_values)

lemma round32_not_nan: "round32 x \<noteq> NaN"
  by (simp add: round32_def round_pos_val)

text \<open>A number from \<open>2 ^ 128\<close> on rounds to infinity.\<close>

lemma round_pos_overflow:
  assumes "pow2 128 \<le> x"
  shows "round_pos x = PInf"
proof -
  have x: "0 < x" using assms pow2_pos[of 128] by simp
  have "log 2 (pow2 128) \<le> log 2 x" using assms pow2_pos[of 128] x by simp
  then have "of_int 128 \<le> log 2 x" by (simp only: log2_pow2)
  then have "128 \<le> \<lfloor>log 2 x\<rfloor>" by (simp add: le_floor_iff)
  then have e128: "128 \<le> bexp x" by (simp add: bexp_def)
  then have "- 126 < bexp x" by simp
  from bexp_bounds(3)[OF x this] have le: "pow2 (bexp x) \<le> x" .
  let ?u = "pow2 (bexp x - 23)"
  have u: "0 < ?u" by (rule pow2_pos)
  have d: "pow2 (bexp x) / ?u = 2 ^ 23"
    by (simp add: pow2_diff) (simp add: pow2_def)
  have "pow2 (bexp x) / ?u \<le> x / ?u" using le u by (simp add: divide_right_mono)
  with d have "of_int (2 ^ 23) \<le> x / ?u" by simp
  then have "(2 ^ 23 :: int) \<le> \<lfloor>x / ?u\<rfloor>" by (simp only: le_floor_iff)
  with half_even_lower[of "x / ?u"] have "(2 ^ 23 :: int) \<le> half_even (x / ?u)"
    by linarith
  then have "of_int (2 ^ 23) \<le> (of_int (half_even (x / ?u)) :: real)"
    by (simp only: of_int_le_iff)
  then have "of_int (2 ^ 23) * ?u \<le> of_int (half_even (x / ?u)) * ?u"
    using u by (simp add: mult_right_mono)
  moreover have "of_int (2 ^ 23) * ?u = pow2 (bexp x)"
    using d u by (simp add: field_simps)
  moreover have "pow2 128 \<le> pow2 (bexp x)" using e128 by (rule pow2_mono)
  ultimately have "pow2 128 \<le> round_val x" by (simp add: round_val_def)
  then show ?thesis by (simp add: round_pos_val)
qed

lemma exp_100_overflows: "pow2 128 \<le> exp (100::real)"
proof -
  have "5 / 2 \<le> exp (1::real)"
    using exp_lower_Taylor_quadratic[of "1::real"] by simp
  then have "(5 / 2) ^ 100 \<le> exp (1::real) ^ 100" by (intro power_mono) simp_all
  also have "\<dots> = exp (100::real)" using exp_of_nat_mult[of 100 "1::real"] by simp
  finally have "(5 / 2) ^ 100 \<le> exp (100::real)" .
  moreover have "pow2 128 \<le> (5 / 2 :: real) ^ 100"
    by (simp add: pow2_def power_divide pos_le_divide_eq)
  ultimately show ?thesis by linarith
qed

text \<open>
  The value a positive number rounds to has a significand of at most \<open>2 ^ 24\<close>; so one
  added to it does not round below it, and a quotient of at most one rounds to at most
  one.
\<close>

lemma round_val_form:
  assumes "0 < v"
  shows "0 \<le> half_even (v / pow2 (bexp v - 23)) \<and>
         half_even (v / pow2 (bexp v - 23)) \<le> 2 ^ 24"
proof -
  let ?u = "pow2 (bexp v - 23)"
  let ?q = "v / ?u"
  have u: "0 < ?u" by (rule pow2_pos)
  have q0: "0 \<le> ?q" using assms u by simp
  have "?q < pow2 (bexp v + 1) / ?u"
    using bexp_bounds(1)[OF assms] u by (simp add: divide_strict_right_mono)
  also have "\<dots> = pow2 24" by (simp add: pow2_diff)
  also have "\<dots> = 2 ^ 24" by (simp add: pow2_def)
  finally have "?q < 2 ^ 24" .
  then have "?q < of_int (2 ^ 24)" by simp
  then have "\<lfloor>?q\<rfloor> < 2 ^ 24" by (simp only: floor_less_iff)
  with half_even_upper[of ?q] have "half_even ?q \<le> 2 ^ 24" by linarith
  with half_even_nonneg[OF q0] show ?thesis by simp
qed

lemma round_val_add_one_ge:
  assumes v: "0 < v" and x: "x = round_val v" and xpos: "0 < x"
  shows "x \<le> round_val (x + 1)"
proof -
  define ew where "ew = bexp (x + 1)"
  define uw where "uw = pow2 (ew - 23)"
  define h where "h = half_even ((x + 1) / uw)"
  have rv: "round_val (x + 1) = of_int h * uw"
    by (simp add: round_val_def h_def uw_def ew_def)
  have w: "0 < x + 1" using xpos by simp
  have uw: "0 < uw" unfolding uw_def by (rule pow2_pos)
  show ?thesis
  proof (cases "ew \<le> 24")
    case True
    then have "uw \<le> pow2 1" unfolding uw_def by (intro pow2_mono) simp
    then have uw2: "uw \<le> 2" by (simp add: pow2_def)
    have "(x + 1) / uw - 1 / 2 \<le> of_int h" unfolding h_def by (rule half_even_near)
    then have "((x + 1) / uw - 1 / 2) * uw \<le> of_int h * uw"
      using uw by (simp add: mult_right_mono)
    moreover have "((x + 1) / uw - 1 / 2) * uw = (x + 1) - uw / 2"
      using uw by (simp add: left_diff_distrib)
    ultimately have "(x + 1) - uw / 2 \<le> of_int h * uw" by simp
    with uw2 rv show ?thesis by simp
  next
    case False
    then have ew: "25 \<le> ew" by simp
    define k where "k = bexp v - 23"
    define n where "n = half_even (v / pow2 k)"
    have xn: "x = of_int n * pow2 k" using x by (simp add: round_val_def n_def k_def)
    from round_val_form[OF v] have n: "0 \<le> n" "n \<le> 2 ^ 24" by (simp_all add: n_def k_def)
    have lw: "pow2 ew \<le> x + 1" using bexp_bounds(3)[OF w] ew by (simp add: ew_def)
    have "pow2 25 \<le> pow2 ew" using ew by (rule pow2_mono)
    then have big: "2 ^ 25 \<le> pow2 ew" by (simp add: pow2_def)
    have "of_int n \<le> (of_int (2 ^ 24) :: real)" using n(2) by (simp only: of_int_le_iff)
    then have "of_int n * pow2 k \<le> of_int (2 ^ 24) * pow2 k"
      using pow2_pos[of k] by (simp add: mult_right_mono)
    then have xle: "x \<le> pow2 (k + 24)" by (simp only: xn pow2_times_24)
    have kk: "ew \<le> k + 24"
    proof (rule ccontr)
      assume "\<not> ew \<le> k + 24"
      then have "k + 24 \<le> ew - 1" by simp
      then have "pow2 (k + 24) \<le> pow2 (ew - 1)" by (rule pow2_mono)
      moreover have "pow2 (ew - 1) = pow2 ew / 2"
        using pow2_diff[of ew 1] by (simp add: pow2_def)
      ultimately have "x \<le> pow2 ew / 2" using xle by simp
      with lw big show False by simp
    qed
    define j where "j = k - (ew - 24)"
    have j0: "0 \<le> j" using kk by (simp add: j_def)
    define m where "m = n * 2 ^ nat j"
    have "k = j + (ew - 24)" by (simp add: j_def)
    then have pk: "pow2 k = pow2 j * pow2 (ew - 24)" by (simp only: pow2_add)
    have "pow2 (ew - 23) / pow2 1 = pow2 (ew - 23 - 1)" by (rule pow2_diff)
    then have ph: "pow2 (ew - 24) = uw / 2" by (simp add: uw_def pow2_def)
    have pj: "pow2 j = of_int (2 ^ nat j)" using j0 by (rule pow2_nat)
    have "x = of_int n * (of_int (2 ^ nat j) * (uw / 2))" by (simp only: xn pk ph pj)
    also have "\<dots> = of_int m / 2 * uw" by (simp add: m_def)
    finally have xm: "x = of_int m / 2 * uw" .
    have "pow2 2 \<le> uw" unfolding uw_def using ew by (intro pow2_mono) simp
    then have "4 \<le> uw" by (simp add: pow2_def)
    then have d: "0 < 1 / uw" "1 / uw < 1 / 2" using uw by (simp_all add: field_simps)
    have "(of_int m / 2 * uw + 1) / uw = of_int m / 2 + 1 / uw"
      using uw by (simp add: field_simps)
    then have "(x + 1) / uw = of_int m / 2 + 1 / uw" by (simp only: xm)
    with half_even_half_integer[OF d, of m]
    have "of_int m / 2 \<le> (of_int h :: real)" by (simp add: h_def)
    then have "of_int m / 2 * uw \<le> of_int h * uw"
      using uw by (simp add: mult_right_mono)
    then show ?thesis by (simp only: rv xm[symmetric])
  qed
qed

lemma round_val_le_one:
  assumes "0 < q" "q \<le> 1"
  shows "round_val q \<le> 1"
proof (cases "q = 1")
  case True
  have "bexp 1 = 0" by (rule bexp_eqI) (simp_all add: pow2_def)
  then show ?thesis using True by (simp add: round_val_def half_even_def Let_def pow2_def)
next
  case False
  with assms have q1: "q < 1" by simp
  have e: "bexp q \<le> - 1"
  proof (rule ccontr)
    assume "\<not> bexp q \<le> - 1"
    then have e0: "0 \<le> bexp q" by simp
    then have "- 126 < bexp q" by simp
    from bexp_bounds(3)[OF assms(1) this] have "pow2 (bexp q) \<le> q" .
    moreover have "pow2 0 \<le> pow2 (bexp q)" using e0 by (rule pow2_mono)
    ultimately show False using q1 by (simp add: pow2_def)
  qed
  let ?u = "pow2 (bexp q - 23)"
  from round_val_form[OF assms(1)] have "half_even (q / ?u) \<le> 2 ^ 24" by simp
  then have "of_int (half_even (q / ?u)) \<le> (of_int (2 ^ 24) :: real)" by (simp only: of_int_le_iff)
  then have "of_int (half_even (q / ?u)) * ?u \<le> of_int (2 ^ 24) * ?u"
    using pow2_pos[of "bexp q - 23"] by (simp add: mult_right_mono)
  also have "of_int (2 ^ 24) * ?u = pow2 (bexp q + 1)"
    using pow2_times_24[of "bexp q - 23"] by (simp add: add.commute)
  also have "\<dots> \<le> pow2 0" using e by (intro pow2_mono) simp
  finally show ?thesis by (simp add: round_val_def pow2_def)
qed


lemma rate32_range: "rate32 a = NaN \<or> (\<exists>r. rate32 a = Fin r \<and> 0 \<le> r \<and> r \<le> 1)"
proof -
  define x where "x = round_val (exp a)"
  have ea: "0 < exp a" by simp
  have E: "f32_exp a = (if pow2 128 \<le> x then PInf else Fin x)"
    by (simp add: f32_exp_def round32_def round_pos_val x_def)
  show ?thesis
  proof (cases "pow2 128 \<le> x")
    case True
    with E show ?thesis by (simp add: rate32_def)
  next
    case False
    with E have Ex: "f32_exp a = Fin x" by simp
    have x0: "0 \<le> x" unfolding x_def using ea by (rule round_val_nonneg)
    show ?thesis
    proof (cases "x = 0")
      case True
      have "round32 1 = Fin 1" by (simp add: round32_values)
      with Ex True have "rate32 a = Fin 0" by (simp add: rate32_def round32_def)
      then show ?thesis by simp
    next
      case False
      with x0 have xpos: "0 < x" by simp
      define y where "y = round_val (x + 1)"
      have xy: "x \<le> y" unfolding y_def using ea x_def xpos by (rule round_val_add_one_ge)
      have S: "f32_add (Fin x) (Fin 1) = (if pow2 128 \<le> y then PInf else Fin y)"
        using xpos by (simp add: round32_def round_pos_val y_def)
      show ?thesis
      proof (cases "pow2 128 \<le> y")
        case True
        with S Ex have "rate32 a = Fin 0" by (simp add: rate32_def)
        then show ?thesis by simp
      next
        case False
        from xpos xy have ypos: "0 < y" by simp
        define q where "q = x / y"
        have q: "0 < q" "q \<le> 1" using xpos ypos xy by (simp_all add: q_def)
        have r1: "round_val q \<le> 1" using q by (rule round_val_le_one)
        have r0: "0 \<le> round_val q" using q(1) by (rule round_val_nonneg)
        from r1 pow2_128_gt_one have "\<not> pow2 128 \<le> round_val q" by simp
        then have "round32 q = Fin (round_val q)"
          using q(1) by (simp add: round32_def round_pos_val)
        with S Ex False ypos have "rate32 a = Fin (round_val q)"
          by (simp add: rate32_def q_def)
        with r0 r1 show ?thesis by simp
      qed
    qed
  qed
qed

subsection \<open>The models\<close>

lemma set_sparsity_sparse: "sparse (set_sparsity normal nm m) = (threshold m \<noteq> 0)"
  by (simp add: set_sparsity_def)

lemma set_sparsity_log_alpha:
  "log_alpha (set_sparsity normal nm m) =
     (if threshold m \<noteq> 0 then Some (new_log_alpha normal (z_dim m)) else None)"
  by (simp add: set_sparsity_def)

lemma set_sparsity_threshold: "threshold (set_sparsity normal nm m) = threshold m"
  by (simp add: set_sparsity_def)

lemma build_modules_keeps:
  "build_modules ep dp hidden m = Inr m' \<Longrightarrow>
     sparse m' = sparse m \<and> log_alpha m' = log_alpha m \<and> threshold m' = threshold m \<and>
     joint_representation m' = joint_representation m \<and> beta m' = beta m \<and>
     n_views m' = n_views m"
  by (auto simp: build_modules_def Let_def split: if_splits)

lemma VAE_init_gate:
  assumes "VAE_init normal ep dp ids zd hl nl lr b th snp id = Inr m"
  shows "threshold m = th \<and> sparse m = (th \<noteq> 0) \<and> \<not> joint_representation m \<and> beta m = b \<and>
         n_views m = length ids \<and>
         log_alpha m = (if th \<noteq> 0 then Some (new_log_alpha normal zd) else None)"
  using assms build_modules_keeps[of ep dp "hl @ [zd]" _ m]
  by (auto simp: VAE_init_def Let_def set_sparsity_def)

lemma joint_VAE_init_gate:
  assumes "joint_VAE_init normal ep dp ids zd hl nl lr b th snp jt id = (out, Inr m)"
  shows "threshold m = th \<and> sparse m = (th \<noteq> 0) \<and> joint_representation m \<and> beta m = b \<and>
         n_views m = length ids \<and>
         log_alpha m = (if th \<noteq> 0 then Some (new_log_alpha normal zd) else None)"
  using assms build_modules_keeps[of ep dp "hl @ [zd]" _ m]
  by (auto simp: joint_VAE_init_def Let_def set_sparsity_def split: if_splits)

lemma ex_log_alpha: "new_log_alpha ex_normal 2 = [0, 100]"
  by (simp add: new_log_alpha_def ex_normal_def upt_rec numeral_2_eq_2)

lemma ex_vae_built:
  "VAE_init ex_normal ex_ep ex_dp [10, 15] 2 [] False 0.002 b th False id = Inr (ex_vae th b)"
  by (simp add: VAE_init_def Let_def set_sparsity_def build_modules_def ex_vae_def
      ex_modules_def ex_log_alpha ex_ep_def ex_dp_def upt_rec)

lemma ex_joint_vae_built:
  "joint_VAE_init ex_normal ex_ep ex_dp [10, 15] 2 [] False 0.002 b th False ''PoE'' id =
     ([], Inr (ex_joint_vae th b))"
  by (simp add: joint_VAE_init_def Let_def set_sparsity_def build_modules_def ex_joint_vae_def
      ex_modules_def ex_log_alpha ex_ep_def ex_dp_def upt_rec)

lemma ex_vae_fields:
  "threshold (ex_vae th b) = th" "sparse (ex_vae th b) = (th \<noteq> 0)"
  "log_alpha (ex_vae th b) = (if th \<noteq> 0 then Some [0, 100] else None)"
  "joint_representation (ex_vae th b) = False" "beta (ex_vae th b) = b"
  "n_views (ex_vae th b) = 2"
  by (simp_all add: ex_vae_def ex_modules_def)

lemma ex_joint_vae_fields:
  "threshold (ex_joint_vae th b) = th" "sparse (ex_joint_vae th b) = (th \<noteq> 0)"
  "log_alpha (ex_joint_vae th b) = (if th \<noteq> 0 then Some [0, 100] else None)"
  "joint_representation (ex_joint_vae th b) = True" "beta (ex_joint_vae th b) = b"
  "n_views (ex_joint_vae th b) = 2"
  by (simp_all add: ex_joint_vae_def ex_modules_def)

lemma put_zero_row_idem:
  "map2 (\<lambda>b v. if b then 0 else v) msk (map2 (\<lambda>b v. if b then (0::real) else v) msk row) =
   map2 (\<lambda>b v. if b then 0 else v) msk row"
proof (induction msk arbitrary: row)
  case Nil
  then show ?case by simp
next
  case (Cons b msk)
  then show ?case by (cases row) simp_all
qed

lemma put_zero_idem: "put_zero msk (put_zero msk t) = put_zero msk t"
  by (simp add: put_zero_def put_zero_row_idem)

lemma put_zero_shape:
  "list_all (\<lambda>row. length row = length msk) t \<Longrightarrow>
   list_all (\<lambda>row. length row = length msk) (put_zero msk t)"
  by (simp add: put_zero_def list_all_iff)

lemma zero_each_frame:
  "zero_each msk as s = (r, s') \<Longrightarrow> a \<notin> set as \<Longrightarrow> s' a = s a"
proof (induction as arbitrary: s)
  case Nil
  then show ?case by simp
next
  case (Cons b as)
  then show ?case
    by (auto split: pyobj.splits sum.splits)
qed

lemma zero_each_written:
  "zero_each msk as s = (Inr u, s') \<Longrightarrow> a \<in> set as \<Longrightarrow>
   \<exists>t. s a = Tensor t \<and> list_all (\<lambda>row. length row = length msk) t \<and>
       s' a = Tensor (put_zero msk t)"
proof (induction as arbitrary: s)
  case Nil
  then show ?case by simp
next
  case (Cons b as)
  from Cons.prems(1) obtain t where sb: "s b = Tensor t"
    by (cases "s b") auto
  from Cons.prems(1) sb have ok: "list_all (\<lambda>row. length row = length msk) t"
    by (auto simp: zero_columns_def split: if_splits)
  let ?s1 = "s(b := Tensor (put_zero msk t))"
  from Cons.prems(1) sb ok have run: "zero_each msk as ?s1 = (Inr u, s')"
    by (simp add: zero_columns_def)
  show ?case
  proof (cases "a \<in> set as")
    case True
    from Cons.IH[OF run True] obtain t1 where
      t1: "?s1 a = Tensor t1" "list_all (\<lambda>row. length row = length msk) t1"
          "s' a = Tensor (put_zero msk t1)" by blast
    show ?thesis
    proof (cases "a = b")
      case True
      with t1 have "t1 = put_zero msk t" by simp
      with t1 True sb ok show ?thesis by (simp add: put_zero_idem)
    next
      case False
      with t1 show ?thesis by simp
    qed
  next
    case False
    with Cons.prems(2) have ab: "a = b" by simp
    from zero_each_frame[OF run False] ab have "s' a = Tensor (put_zero msk t)" by simp
    with ab sb ok show ?thesis by simp
  qed
qed

lemma zero_each_succeeds:
  "\<forall>a\<in>set as. \<exists>t. s a = Tensor t \<and> list_all (\<lambda>row. length row = length msk) t \<Longrightarrow>
   fst (zero_each msk as s) = Inr ()"
proof (induction as arbitrary: s)
  case Nil
  then show ?case by simp
next
  case (Cons b as)
  from Cons.prems obtain t where sb: "s b = Tensor t"
    and ok: "list_all (\<lambda>row. length row = length msk) t" by auto
  let ?s1 = "s(b := Tensor (put_zero msk t))"
  have "\<forall>a\<in>set as. \<exists>t. ?s1 a = Tensor t \<and> list_all (\<lambda>row. length row = length msk) t"
    using Cons.prems ok put_zero_shape by auto
  from Cons.IH[OF this] have "fst (zero_each msk as ?s1) = Inr ()" .
  moreover have "zero_each msk (b # as) s = zero_each msk as ?s1"
    using sb ok by (simp add: zero_columns_def)
  ultimately show ?case by (simp only:)
qed

lemma rate32_values: "rate32 0 = Fin (1 / 2)" "rate32 100 = NaN"
proof -
  show "rate32 0 = Fin (1 / 2)"
    by (simp add: rate32_def f32_exp_def round32_values)
  have "round32 (exp 100) = PInf"
    using round_pos_overflow[OF exp_100_overflows] by (simp add: round32_def)
  then show "rate32 100 = NaN" by (simp add: rate32_def f32_exp_def)
qed

text \<open>At \<open>log_alpha = 19\<close> the exponential is so large that adding 1 is lost in rounding: the rate is exactly 1.\<close>

lemma exp_19_bounds: "pow2 27 \<le> exp (19::real)" "exp (19::real) < pow2 28 - 17"
proof -
  have "41 / 32 \<le> exp (1 / 4 :: real)"
    using exp_lower_Taylor_quadratic[of "1 / 4 :: real"] by (simp add: power2_eq_square)
  then have "(41 / 32) ^ 76 \<le> exp (1 / 4 :: real) ^ 76" by (intro power_mono) simp_all
  also have "\<dots> = exp (19::real)" using exp_of_nat_mult[of 76 "1 / 4 :: real"] by simp
  finally have "(41 / 32) ^ 76 \<le> exp (19::real)" .
  moreover have "pow2 27 \<le> (41 / 32 :: real) ^ 76"
    by (simp add: pow2_def power_divide pos_le_divide_eq)
  ultimately show "pow2 27 \<le> exp (19::real)" by linarith
  have a: "exp (1 / 64 :: real) \<le> 4161 / 4096"
    using exp_bound[of "1 / 64 :: real"] by (simp add: power2_eq_square)
  have "exp (1 / 8 :: real) = exp (1 / 64) ^ 8"
    using exp_of_nat_mult[of 8 "1 / 64 :: real"] by simp
  also have "\<dots> \<le> (4161 / 4096) ^ 8" using a by (intro power_mono) simp_all
  also have "\<dots> \<le> 11343 / 10000" by (simp add: power_divide pos_divide_le_eq)
  finally have b: "exp (1 / 8 :: real) \<le> 11343 / 10000" .
  have "exp (1 :: real) = exp (1 / 8) ^ 8"
    using exp_of_nat_mult[of 8 "1 / 8 :: real"] by simp
  also have "\<dots> \<le> (11343 / 10000) ^ 8" using b by (intro power_mono) simp_all
  also have "\<dots> \<le> 2741 / 1000" by (simp add: power_divide pos_divide_le_eq)
  finally have c: "exp (1 :: real) \<le> 2741 / 1000" .
  have "exp (19 :: real) = exp 1 ^ 19"
    using exp_of_nat_mult[of 19 "1 :: real"] by simp
  also have "\<dots> \<le> (2741 / 1000) ^ 19" using c by (intro power_mono) simp_all
  also have "\<dots> < pow2 28 - 17" by (simp add: pow2_def power_divide pos_divide_less_eq)
  finally show "exp (19::real) < pow2 28 - 17" .
qed

lemma rate32_19: "rate32 19 = Fin 1"
proof -
  define E where "E = exp (19::real)"
  have lo: "pow2 27 \<le> E" and hi: "E < pow2 28 - 17"
    using exp_19_bounds by (simp_all add: E_def)
  have p4: "pow2 4 = 16" and p27: "pow2 27 = 16 * 2 ^ 23" and p28: "pow2 28 = 16 * 2 ^ 24"
    by (simp_all add: pow2_def)
  have bE: "bexp E = 27" using lo hi by (intro bexp_eqI) simp_all
  define n where "n = half_even (E / 16)"
  define x where "x = of_int n * (16::real)"
  have xv: "round_val E = x" by (simp add: round_val_def bE p4 n_def x_def)
  have "of_int (2 ^ 23) \<le> E / 16" using lo by (simp add: p27)
  then have "(2 ^ 23 :: int) \<le> \<lfloor>E / 16\<rfloor>" by (simp only: le_floor_iff)
  with half_even_lower[of "E / 16"] have n_lo: "(2 ^ 23 :: int) \<le> n"
    unfolding n_def by linarith
  then have "of_int (2 ^ 23) \<le> (of_int n :: real)" by (simp only: of_int_le_iff)
  then have x_lo: "pow2 27 \<le> x" by (simp add: x_def p27)
  have "of_int n \<le> (of_int (\<lfloor>E / 16\<rfloor> + 1) :: real)"
    using half_even_upper[of "E / 16"] unfolding n_def by (simp only: of_int_le_iff)
  moreover have "of_int \<lfloor>E / 16\<rfloor> \<le> E / 16" by (rule of_int_floor_le)
  ultimately have "of_int n \<le> E / 16 + 1" by simp
  then have "x \<le> E + 16" by (simp add: x_def field_simps)
  with hi have x_hi: "x + 1 < pow2 28" by simp
  have x_pos: "0 < x" using x_lo pow2_pos[of 27] by linarith
  have "pow2 28 \<le> pow2 128" by (intro pow2_mono) simp
  with x_hi have x_fin: "\<not> pow2 128 \<le> x" "\<not> pow2 128 \<le> x + 1" by simp_all
  have E_pos: "0 < E" by (simp add: E_def)
  have e1: "f32_exp 19 = Fin x"
    using x_fin(1) E_pos by (simp add: f32_exp_def round32_def round_pos_val xv E_def[symmetric])
  have bx: "bexp (x + 1) = 27" using x_lo x_hi by (intro bexp_eqI) simp_all
  have q: "(x + 1) / 16 = of_int n + 1 / 16" by (simp add: x_def)
  have fl: "\<lfloor>of_int n + (1 / 16 :: real)\<rfloor> = n" by (intro floor_unique) simp_all
  have "half_even (of_int n + 1 / 16) = n"
    unfolding half_even_def Let_def fl by simp
  then have h: "half_even ((x + 1) / 16) = n" by (simp only: q)
  have "round_val (x + 1) = of_int (half_even ((x + 1) / 16)) * 16"
    by (simp add: round_val_def bx p4)
  also have "\<dots> = of_int n * 16" by (simp only: h)
  also have "\<dots> = x" by (simp only: x_def)
  finally have "round_val (x + 1) = x" .
  then have e2: "round32 (x + 1) = Fin x"
    using x_fin(1) x_pos by (simp add: round32_def round_pos_val)
  show ?thesis
    using x_pos by (simp add: rate32_def e1 e2 round32_values)
qed

lemma round32_nonpos:
  assumes "th \<le> 0"
  shows "round32 th = NInf \<or> (\<exists>t. round32 th = Fin t \<and> t \<le> 0)"
proof (cases "th = 0")
  case True
  then show ?thesis by (simp add: round32_def)
next
  case False
  with assms have "0 < - th" by simp
  from round_val_nonneg[OF this] False assms show ?thesis
    by (simp add: round32_def round_pos_val)
qed

lemma rate32_not_below_nonpos:
  assumes "th \<le> 0"
  shows "\<not> f32_less (rate32 a) (round32 th)"
  using rate32_range[of a] round32_nonpos[OF assms] by auto

lemma f32_not_less_iff: "r \<noteq> NaN \<Longrightarrow> T \<noteq> NaN \<Longrightarrow> (\<not> f32_less r T) = f32_le T r"
  by (cases r; cases T) auto

lemma f32_not_less_cases: "T \<noteq> NaN \<Longrightarrow> (\<not> f32_less r T) = (f32_le T r \<or> r = NaN)"
  by (cases r; cases T) auto

lemma dropout_gate:
  "sparse m \<Longrightarrow> log_alpha m = Some la \<Longrightarrow> dropout m = Inr (map rate32 la)"
  by (simp add: dropout_def rate32_def Let_def comp_def)

lemma put_zero_gate:
  assumes "list_all (\<lambda>row. length row = length la) t"
  shows "put_zero (map Not (map (\<lambda>r. f32_less r (round32 th)) (map rate32 la))) t =
         keep_below th la t"
proof -
  have "map2 (\<lambda>b v. if b then 0 else v)
          (map Not (map (\<lambda>r. f32_less r (round32 th)) (map rate32 la))) row =
        map (\<lambda>j. if f32_less (rate32 (la ! j)) (round32 th) then row ! j else 0)
            [0..<length la]"
    if "length row = length la" for row :: "real list"
    using that by (intro nth_equalityI) auto
  with assms show ?thesis
    by (simp add: put_zero_def keep_below_def list_all_iff)
qed

lemma keep_below_nonpos:
  assumes "th \<le> 0"
  shows "keep_below th la t = map (\<lambda>row. replicate (length la) 0) t"
proof -
  have "map (\<lambda>j. if f32_less (rate32 (la ! j)) (round32 th) then row ! j else 0)
            [0..<length la] = replicate (length la) (0::real)" for row :: "real list"
    using rate32_not_below_nonpos[OF assms] by (intro nth_equalityI) auto
  then show ?thesis by (simp add: keep_below_def)
qed

lemma keep_below_spec:
  assumes "list_all (\<lambda>a. rate32 a \<noteq> NaN) la"
  shows "keep_below th la t = spec_apply_threshold th la t"
proof -
  have "(if f32_less (rate32 (la ! j)) (round32 th) then row ! j else 0) =
        (if f32_le (round32 th) (rate32 (la ! j)) then 0 else row ! j)"
    if "j \<in> set [0..<length la]" for j and row :: "real list"
  proof -
    from that have "la ! j \<in> set la" by simp
    with assms have "rate32 (la ! j) \<noteq> NaN" by (simp add: list_all_iff)
    from f32_not_less_iff[OF this round32_not_nan, of th] show ?thesis by auto
  qed
  then show ?thesis
    unfolding keep_below_def spec_apply_threshold_def
    by (intro map_cong refl) simp
qed

lemma keep_below_one_entry:
  assumes "b < length t" "j < length la" "f32_less (rate32 (la ! j)) (Fin 1)"
  shows "keep_below 1 la t ! b ! j = t ! b ! j"
  using assms by (simp add: keep_below_def round32_values)

lemma apply_threshold_joint_run:
  assumes "sparse m" "log_alpha m = Some la" "threshold m \<le> 1" "joint_representation m"
    and "s z = Tensor t" "list_all (\<lambda>row. length row = length la) t"
  shows "apply_threshold m z s =
           (Inr z, s(z := Tensor (keep_below (threshold m) la t)))"
proof -
  let ?msk = "map Not (map (\<lambda>r. f32_less r (round32 (threshold m))) (map rate32 la))"
  have len: "length ?msk = length la" by simp
  have "zero_columns ?msk t = Inr (put_zero ?msk t)"
    unfolding zero_columns_def using assms(6) by (simp only: len if_True)
  also have "put_zero ?msk t = keep_below (threshold m) la t"
    using assms(6) by (rule put_zero_gate)
  finally have zc: "zero_columns ?msk t = Inr (keep_below (threshold m) la t)" .
  have "apply_threshold m z s =
          (case zero_columns ?msk t of Inl e \<Rightarrow> (Inl e, s)
           | Inr t' \<Rightarrow> (Inr z, s(z := Tensor t')))"
    using assms(1-5) by (simp add: apply_threshold_def dropout_gate Let_def del: map_map)
  then show ?thesis by (simp only: zc sum.case)
qed

lemma apply_threshold_views_run:
  assumes "sparse m" "log_alpha m = Some la" "threshold m \<le> 1" "\<not> joint_representation m"
    and "s z = PyList as"
    and "\<forall>a\<in>set as. \<exists>t. s a = Tensor t \<and> list_all (\<lambda>row. length row = length la) t"
  shows "\<exists>s'. apply_threshold m z s = (Inr z, s') \<and>
              (\<forall>a. a \<notin> set as \<longrightarrow> s' a = s a) \<and>
              (\<forall>a\<in>set as. \<forall>t. s a = Tensor t \<longrightarrow>
                  s' a = Tensor (keep_below (threshold m) la t))"
proof -
  let ?msk = "map Not (map (\<lambda>r. f32_less r (round32 (threshold m))) (map rate32 la))"
  have len: "length ?msk = length la" by simp
  obtain r s' where run: "zero_each ?msk as s = (r, s')" by (cases "zero_each ?msk as s")
  have "fst (zero_each ?msk as s) = Inr ()"
    using assms(6) by (intro zero_each_succeeds) (simp only: len)
  with run have run': "zero_each ?msk as s = (Inr (), s')" by simp
  have res: "apply_threshold m z s = (Inr z, s')"
    using assms(1-5) run' by (simp add: apply_threshold_def dropout_gate Let_def del: map_map)
  have frame: "\<forall>a. a \<notin> set as \<longrightarrow> s' a = s a"
    using zero_each_frame[OF run'] by blast
  have written: "s' a = Tensor (keep_below (threshold m) la t)"
    if "a \<in> set as" "s a = Tensor t" for a t
  proof -
    from zero_each_written[OF run' that(1)] that(2)
    have ok: "list_all (\<lambda>row. length row = length ?msk) t"
      and w: "s' a = Tensor (put_zero ?msk t)" by auto
    from ok have "list_all (\<lambda>row. length row = length la) t" by (simp only: len)
    from put_zero_gate[OF this, of "threshold m"] w show ?thesis by simp
  qed
  from res frame written show ?thesis by blast
qed

lemma apply_threshold_assert:
  "1 < threshold m \<Longrightarrow> apply_threshold m z s = (Inl AssertionError, s)"
  by (simp add: apply_threshold_def)

lemma apply_threshold_not_sparse:
  "\<not> sparse m \<Longrightarrow> threshold m \<le> 1 \<Longrightarrow> apply_threshold m z s = (Inl NotImplementedError, s)"
  by (simp add: apply_threshold_def dropout_def)

lemma ex_store_at:
  "ex_store 0 = Tensor [[1, 2], [3, 4]]" "ex_store 1 = Tensor [[5, 6]]"
  "ex_store 2 = PyList [0, 1]" "ex_store (Suc 0) = Tensor [[5, 6]]"
  by (simp_all add: ex_store_def)

lemma ex_dropout:
  "th \<noteq> 0 \<Longrightarrow> dropout (ex_vae th b) = Inr [Fin (1 / 2), NaN]"
  "th \<noteq> 0 \<Longrightarrow> dropout (ex_joint_vae th b) = Inr [Fin (1 / 2), NaN]"
  by (simp_all add: dropout_gate ex_vae_fields ex_joint_vae_fields rate32_values)

lemma ex_joint_threshold_run:
  "th \<noteq> 0 \<Longrightarrow> th \<le> 1 \<Longrightarrow>
   apply_threshold (ex_joint_vae th b) 0 ex_store =
     (Inr 0, ex_store(0 := Tensor
        [[if f32_less (Fin (1 / 2)) (round32 th) then 1 else 0, 0],
         [if f32_less (Fin (1 / 2)) (round32 th) then 3 else 0, 0]]))"
  by (simp add: apply_threshold_def ex_dropout ex_joint_vae_fields ex_store_at
      zero_columns_def put_zero_def Let_def)

lemma ex_views_threshold_run:
  "th \<noteq> 0 \<Longrightarrow> th \<le> 1 \<Longrightarrow>
   apply_threshold (ex_vae th b) 2 ex_store =
     (Inr 2, ex_store(0 := Tensor
        [[if f32_less (Fin (1 / 2)) (round32 th) then 1 else 0, 0],
         [if f32_less (Fin (1 / 2)) (round32 th) then 3 else 0, 0]],
                      1 := Tensor [[if f32_less (Fin (1 / 2)) (round32 th) then 5 else 0, 0]]))"
  by (simp add: apply_threshold_def ex_dropout ex_vae_fields ex_store_at
      zero_columns_def put_zero_def Let_def)

lemma ex_vae_kw_fields:
  "sparse ex_vae_kw" "log_alpha ex_vae_kw = None" "threshold ex_vae_kw = 0"
  by (simp_all add: ex_vae_kw_def VAE_init_def Let_def set_sparsity_def build_modules_def)

lemma set_sparsity_keeps:
  "input_dims (set_sparsity normal nm m) = input_dims m"
  "n_views (set_sparsity normal nm m) = n_views m"
  "learning_rate (set_sparsity normal nm m) = learning_rate m"
  "join_type (set_sparsity normal nm m) = join_type m"
  "join_z (set_sparsity normal nm m) = join_z m"
  by (simp_all add: set_sparsity_def)

lemma build_modules_run:
  assumes "n_views m = length (input_dims m)"
  shows "\<exists>m'. build_modules ep dp hidden m = Inr m' \<and>
           optimizers m' =
             map (\<lambda>i. \<lparr>opt_params = ep i @ dp i, opt_lr = learning_rate m\<rparr>)
                 [0..<length (input_dims m)] \<and>
           join_type m' = join_type m \<and> join_z m' = join_z m"
  using assms by (simp add: build_modules_def Let_def)

lemma joint_VAE_init_PoE:
  "joint_VAE_init normal ep dp ids zd hl nl lr b th snp ''PoE'' id =
     ([], build_modules ep dp (hl @ [zd])
        ((set_sparsity normal ''joint_sparse_VAE''
           \<lparr>model_type = ''joint_VAE'', input_dims = ids, z_dim = zd,
            non_linear = nl, beta = b, learning_rate = lr, SNP_model = snp,
            joint_representation = True, join_type = Some ''PoE'',
            join_z = Some ProductOfExperts,
            threshold = th, sparse = False, log_alpha = None,
            n_views = 0, encoders = [], decoders = [], optimizers = []\<rparr>)
         \<lparr>n_views := length ids\<rparr>))"
  by (simp add: joint_VAE_init_def Let_def)

lemma joint_VAE_init_Mean:
  "joint_VAE_init normal ep dp ids zd hl nl lr b th snp ''Mean'' id =
     ([], build_modules ep dp (hl @ [zd])
        ((set_sparsity normal ''joint_sparse_VAE''
           \<lparr>model_type = ''joint_VAE'', input_dims = ids, z_dim = zd,
            non_linear = nl, beta = b, learning_rate = lr, SNP_model = snp,
            joint_representation = True, join_type = Some ''Mean'',
            join_z = Some MeanRepresentation,
            threshold = th, sparse = False, log_alpha = None,
            n_views = 0, encoders = [], decoders = [], optimizers = []\<rparr>)
         \<lparr>n_views := length ids\<rparr>))"
  by (simp add: joint_VAE_init_def Let_def)

lemma VAE_init_unfold:
  "VAE_init normal ep dp ids zd hl nl lr b th snp id =
     build_modules ep dp (hl @ [zd])
        ((set_sparsity normal ''sparse_VAE''
           \<lparr>model_type = ''VAE'', input_dims = ids, z_dim = zd,
            non_linear = nl, beta = b, learning_rate = lr, SNP_model = snp,
            joint_representation = False, join_type = None, join_z = None,
            threshold = th, sparse = False, log_alpha = None,
            n_views = 0, encoders = [], decoders = [], optimizers = []\<rparr>)
         \<lparr>n_views := length ids\<rparr>)"
  by (simp add: VAE_init_def Let_def)

lemma joint_VAE_init_valid:
  assumes "jt = ''Mean'' \<or> jt = ''PoE''"
  shows "\<exists>m. joint_VAE_init normal ep dp ids zd hl nl lr b th snp jt id = ([], Inr m) \<and>
           optimizers m =
             map (\<lambda>i. \<lparr>opt_params = ep i @ dp i, opt_lr = lr\<rparr>) [0..<length ids] \<and>
           join_type m = Some jt \<and>
           join_z m = Some (if jt = ''PoE'' then ProductOfExperts else MeanRepresentation)"
proof -
  from assms show ?thesis
  proof
    assume jt: "jt = ''Mean''"
    let ?pre = "(set_sparsity normal ''joint_sparse_VAE''
           \<lparr>model_type = ''joint_VAE'', input_dims = ids, z_dim = zd,
            non_linear = nl, beta = b, learning_rate = lr, SNP_model = snp,
            joint_representation = True, join_type = Some ''Mean'',
            join_z = Some MeanRepresentation,
            threshold = th, sparse = False, log_alpha = None,
            n_views = 0, encoders = [], decoders = [], optimizers = []\<rparr>)
         \<lparr>n_views := length ids\<rparr>"
    have "n_views ?pre = length (input_dims ?pre)" by (simp add: set_sparsity_keeps)
    from build_modules_run[OF this, of ep dp "hl @ [zd]"] show ?thesis
      unfolding jt joint_VAE_init_Mean by (auto simp: set_sparsity_keeps)
  next
    assume jt: "jt = ''PoE''"
    let ?pre = "(set_sparsity normal ''joint_sparse_VAE''
           \<lparr>model_type = ''joint_VAE'', input_dims = ids, z_dim = zd,
            non_linear = nl, beta = b, learning_rate = lr, SNP_model = snp,
            joint_representation = True, join_type = Some ''PoE'',
            join_z = Some ProductOfExperts,
            threshold = th, sparse = False, log_alpha = None,
            n_views = 0, encoders = [], decoders = [], optimizers = []\<rparr>)
         \<lparr>n_views := length ids\<rparr>"
    have "n_views ?pre = length (input_dims ?pre)" by (simp add: set_sparsity_keeps)
    from build_modules_run[OF this, of ep dp "hl @ [zd]"] show ?thesis
      unfolding jt joint_VAE_init_PoE by (auto simp: set_sparsity_keeps)
  qed
qed

lemma VAE_init_valid:
  "\<exists>m. VAE_init normal ep dp ids zd hl nl lr b th snp id = Inr m \<and>
       optimizers m = map (\<lambda>i. \<lparr>opt_params = ep i @ dp i, opt_lr = lr\<rparr>) [0..<length ids]"
proof -
  let ?pre = "(set_sparsity normal ''sparse_VAE''
           \<lparr>model_type = ''VAE'', input_dims = ids, z_dim = zd,
            non_linear = nl, beta = b, learning_rate = lr, SNP_model = snp,
            joint_representation = False, join_type = None, join_z = None,
            threshold = th, sparse = False, log_alpha = None,
            n_views = 0, encoders = [], decoders = [], optimizers = []\<rparr>)
         \<lparr>n_views := length ids\<rparr>"
  have "n_views ?pre = length (input_dims ?pre)" by (simp add: set_sparsity_keeps)
  from build_modules_run[OF this, of ep dp "hl @ [zd]"] show ?thesis
    unfolding VAE_init_unfold by (auto simp: set_sparsity_keeps)
qed

lemma joint_VAE_init_invalid:
  "jt \<noteq> ''Mean'' \<Longrightarrow> jt \<noteq> ''PoE'' \<Longrightarrow>
   joint_VAE_init normal ep dp ids zd hl nl lr b th snp jt kwargs =
     ([''Incorrect join method''], Inl SystemExit)"
  by (simp add: joint_VAE_init_def Let_def)

lemma randn_like_shape: "shape (randn_like randn t) = shape t"
  by (auto simp: shape_def randn_like_def intro: nth_equalityI)

lemma tensor_exp_half_shape: "shape (tensor_exp_half t) = shape t"
  by (simp add: shape_def tensor_exp_half_def comp_def)

lemma shape_nth: "shape a = shape b \<Longrightarrow> i < length a \<Longrightarrow> length (a ! i) = length (b ! i)"
proof -
  assume h: "shape a = shape b" and i: "i < length a"
  from h have l: "length a = length b" unfolding shape_def by (rule map_eq_imp_length_eq)
  from h have "map length a ! i = map length b ! i" by (simp add: shape_def)
  with i l show ?thesis by simp
qed

lemma shape_length: "shape a = shape b \<Longrightarrow> length a = length b"
  unfolding shape_def by (rule map_eq_imp_length_eq)

lemma elementwise_run:
  assumes "shape a = shape b"
  shows "elementwise f a b =
           Some (map (\<lambda>i. map (\<lambda>j. f (a ! i ! j) (b ! i ! j)) [0..<length (a ! i)])
                     [0..<length a])"
proof -
  have l: "length a = length b" using assms by (rule shape_length)
  have "map2 (map2 f) a b =
        map (\<lambda>i. map (\<lambda>j. f (a ! i ! j) (b ! i ! j)) [0..<length (a ! i)]) [0..<length a]"
  proof (rule nth_equalityI)
    show "length (map2 (map2 f) a b) =
          length (map (\<lambda>i. map (\<lambda>j. f (a ! i ! j) (b ! i ! j)) [0..<length (a ! i)])
                      [0..<length a])"
      using l by simp
  next
    fix i assume "i < length (map2 (map2 f) a b)"
    with l have i: "i < length a" "i < length b" by simp_all
    have r: "length (a ! i) = length (b ! i)" using assms i(1) by (rule shape_nth)
    have "map2 f (a ! i) (b ! i) = map (\<lambda>j. f (a ! i ! j) (b ! i ! j)) [0..<length (a ! i)]"
      using r by (intro nth_equalityI) simp_all
    with i show "map2 (map2 f) a b ! i =
        map (\<lambda>i. map (\<lambda>j. f (a ! i ! j) (b ! i ! j)) [0..<length (a ! i)]) [0..<length a] ! i"
      by simp
  qed
  with assms show ?thesis by (simp add: elementwise_def)
qed

lemma joint_reparameterise_run:
  assumes "shape logvar_t = shape mu_t"
  shows "joint_reparameterise randn mu_t logvar_t =
           Some (spec_reparameterise randn mu_t logvar_t)"
proof -
  let ?std = "tensor_exp_half logvar_t"
  let ?eps = "randn_like randn mu_t"
  let ?es = "map (\<lambda>i. map (\<lambda>j. ?eps ! i ! j * ?std ! i ! j) [0..<length (?eps ! i)])
                 [0..<length ?eps]"
  have s1: "shape ?eps = shape ?std"
    using assms by (simp add: randn_like_shape tensor_exp_half_shape)
  have e1: "elementwise (*) ?eps ?std = Some ?es" using s1 by (rule elementwise_run)
  have lm: "length ?eps = length mu_t" by (simp add: randn_like_def)
  have ll: "length logvar_t = length mu_t" using assms by (rule shape_length)
  have s2: "shape mu_t = shape ?es"
    unfolding shape_def by (rule nth_equalityI) (simp_all add: lm randn_like_def)
  have e2: "elementwise (+) mu_t ?es =
      Some (map (\<lambda>i. map (\<lambda>j. mu_t ! i ! j + ?es ! i ! j) [0..<length (mu_t ! i)])
                [0..<length mu_t])"
    using s2 by (rule elementwise_run)
  have "map (\<lambda>i. map (\<lambda>j. mu_t ! i ! j + ?es ! i ! j) [0..<length (mu_t ! i)])
            [0..<length mu_t] = spec_reparameterise randn mu_t logvar_t"
    unfolding spec_reparameterise_def
  proof (rule map_cong[OF refl], rule map_cong[OF refl])
    fix i j assume "i \<in> set [0..<length mu_t]" "j \<in> set [0..<length (mu_t ! i)]"
    then have i: "i < length mu_t" and j: "j < length (mu_t ! i)" by simp_all
    from shape_nth[OF assms] i ll have lj: "length (logvar_t ! i) = length (mu_t ! i)" by simp
    from i j lj ll show "mu_t ! i ! j + ?es ! i ! j =
        mu_t ! i ! j + randn i j * exp (0.5 * logvar_t ! i ! j)"
      by (simp add: randn_like_def tensor_exp_half_def)
  qed
  with e2 have e3: "elementwise (+) mu_t ?es = Some (spec_reparameterise randn mu_t logvar_t)"
    by simp
  show ?thesis
    unfolding joint_reparameterise_def Let_def e1 option.case e3 ..
qed

lemma reparameterise_loop_run:
  assumes "\<forall>i\<in>set is. i < length mus \<and> i < length logvars \<and>
             shape (logvars ! i) = shape (mus ! i)"
  shows "reparameterise_loop randn mus logvars is z =
           Some (Inr (z @ map (\<lambda>i. spec_reparameterise (randn i) (mus ! i) (logvars ! i)) is))"
  using assms
proof (induction "is" arbitrary: z)
  case Nil
  then show ?case by simp
next
  case (Cons i "is")
  from Cons.prems have "shape (logvars ! i) = shape (mus ! i)" by simp
  from joint_reparameterise_run[OF this, of "randn i"] Cons.prems Cons.IH
  show ?case by simp
qed

lemma joint_calc_ll_loop_returns:
  "\<forall>i\<in>set is. i < length xr \<and> i < length x \<Longrightarrow>
   \<exists>r. joint_calc_ll_loop log_prob x xr is ll = Inr r"
  by (induction "is" arbitrary: ll) simp_all

lemma calc_kl_loop_returns:
  "\<forall>i\<in>set is. i < length mus \<and> i < length logvars \<Longrightarrow>
   \<exists>r. calc_kl_loop ck cks m mus logvars is kl = Inr r"
  by (induction "is" arbitrary: kl) simp_all

lemma calc_kl_loop_beta:
  "calc_kl_loop ck cks (m\<lparr>beta := b\<rparr>) mus logvars is kl =
   calc_kl_loop ck cks m mus logvars is kl"
  by (induction "is" arbitrary: kl) simp_all

lemma calc_ll_loop_returns:
  "\<forall>(i, j)\<in>set ps. i < length xr \<and> j < length (xr ! i) \<and> i < length x \<Longrightarrow>
   \<exists>r. calc_ll_loop log_prob x xr ps ll = Inr r"
proof (induction ps arbitrary: ll)
  case Nil
  then show ?case by simp
next
  case (Cons p ps)
  obtain i j where p: "p = (i, j)" by (cases p)
  from Cons.prems p have "i < length xr \<and> j < length (xr ! i) \<and> i < length x" by simp
  moreover from Cons.prems
  have "\<forall>(i, j)\<in>set ps. i < length xr \<and> j < length (xr ! i) \<and> i < length x" by simp
  from Cons.IH[OF this] have "\<exists>r. calc_ll_loop log_prob x xr ps
      (ll + torch_mean (sum_dim1 (log_prob (xr ! i ! j) (x ! i)))) = Inr r" .
  ultimately show ?case using p by simp
qed

lemma dvcca_calc_kl_loop_returns:
  "\<forall>i\<in>set is. i < length qs \<Longrightarrow> \<exists>r. dvcca_calc_kl_loop skl kld m qs is kl = Inr r"
  by (induction "is" arbitrary: kl) simp_all

lemma dvcca_calc_kl_loop_beta:
  "dvcca_calc_kl_loop skl kld (m\<lparr>dv_beta := b\<rparr>) qs is kl =
   dvcca_calc_kl_loop skl kld m qs is kl"
  by (induction "is" arbitrary: kl) simp_all

lemma dvcca_calc_ll_loop_returns:
  "\<forall>i\<in>set is. i < length ps \<and> 0 < length (ps ! i) \<and> i < length x \<Longrightarrow>
   \<exists>r. dvcca_calc_ll_loop loglik x ps is ll = Inr r"
  by (induction "is" arbitrary: ll) simp_all

lemma joint_loss_function_returns:
  assumes "joint_valid m x fwd"
  shows "\<exists>raw ll. \<forall>b. joint_loss_function ck cks log_prob (m\<lparr>beta := b\<rparr>) x fwd =
           Inr [(''total'', b * raw - ll), (''kl'', b * raw), (''ll'', ll)]"
proof -
  from assms have "\<forall>i\<in>set [0..<n_views m]. i < length (x_recon fwd) \<and> i < length x"
    by (simp add: joint_valid_def)
  from joint_calc_ll_loop_returns[OF this, of log_prob 0]
  obtain ll where ll: "joint_calc_ll_loop log_prob x (x_recon fwd) [0..<n_views m] 0 = Inr ll"
    by blast
  let ?raw = "if sparse m then cks (mu fwd) (logvar fwd) else ck (mu fwd) (logvar fwd)"
  have "joint_loss_function ck cks log_prob (m\<lparr>beta := b\<rparr>) x fwd =
           Inr [(''total'', b * ?raw - ll), (''kl'', b * ?raw), (''ll'', ll)]" for b
    using ll by (simp add: joint_loss_function_def joint_calc_kl_def joint_calc_ll_def Let_def)
  then show ?thesis by blast
qed

lemma loss_function_returns:
  assumes "vae_valid m x fwd"
  shows "\<exists>raw ll. \<forall>b. loss_function ck cks log_prob (m\<lparr>beta := b\<rparr>) x fwd =
           Inr [(''total'', b * raw - ll), (''kl'', b * raw), (''ll'', ll)]"
proof -
  let ?n = "n_views m"
  from assms have "\<forall>i\<in>set [0..<?n]. i < length (mu fwd) \<and> i < length (logvar fwd)"
    by (simp add: vae_valid_def)
  from calc_kl_loop_returns[OF this, of ck cks m 0]
  obtain raw where raw: "calc_kl_loop ck cks m (mu fwd) (logvar fwd) [0..<?n] 0 = Inr raw"
    by blast
  have row: "?n \<le> length (x_recon fwd ! i)" if "i < ?n" for i
  proof -
    from assms have a: "list_all (\<lambda>r. ?n \<le> length r) (take ?n (x_recon fwd))"
      and l: "?n \<le> length (x_recon fwd)" by (simp_all add: vae_valid_def)
    from that l have "take ?n (x_recon fwd) ! i \<in> set (take ?n (x_recon fwd))"
      by (intro nth_mem) simp
    with a have "?n \<le> length (take ?n (x_recon fwd) ! i)" by (simp add: list_all_iff)
    with that show ?thesis by simp
  qed
  have "\<forall>(i, j)\<in>set (List.product [0..<?n] [0..<?n]).
          i < length (x_recon fwd) \<and> j < length (x_recon fwd ! i) \<and> i < length x"
  proof (clarify, intro conjI)
    fix i j assume "(i, j) \<in> set (List.product [0..<?n] [0..<?n])"
    then have i: "i < ?n" and j: "j < ?n" by simp_all
    from assms i show "i < length (x_recon fwd)" by (simp add: vae_valid_def)
    from row[OF i] j show "j < length (x_recon fwd ! i)" by simp
    from assms i show "i < length x" by (simp add: vae_valid_def)
  qed
  from calc_ll_loop_returns[OF this, of log_prob 0]
  obtain ll where ll: "calc_ll_loop log_prob x (x_recon fwd)
      (List.product [0..<?n] [0..<?n]) 0 = Inr ll" by blast
  have "loss_function ck cks log_prob (m\<lparr>beta := b\<rparr>) x fwd =
           Inr [(''total'', b * raw - ll), (''kl'', b * raw), (''ll'', ll)]" for b
    using raw ll
    by (simp add: loss_function_def calc_kl_def calc_ll_def calc_kl_loop_beta Let_def)
  then show ?thesis by blast
qed

lemma dvcca_loss_function_returns:
  assumes "dvcca_valid m x fwd"
  shows "\<exists>raw ll. \<forall>b. dvcca_loss_function skl kld loglik (m\<lparr>dv_beta := b\<rparr>) x fwd =
           Inr [(''loss'', b * raw - ll), (''kl'', b * raw), (''ll'', ll)]"
proof -
  let ?n = "dv_n_views m"
  let ?k = "if dv_private m then ?n else 1"
  from assms have "\<forall>i\<in>set [0..<?k]. i < length (qz_x fwd)"
    by (simp add: dvcca_valid_def)
  from dvcca_calc_kl_loop_returns[OF this, of skl kld m 0]
  obtain raw where raw: "dvcca_calc_kl_loop skl kld m (qz_x fwd) [0..<?k] 0 = Inr raw"
    by blast
  have row: "0 < length (px_zs fwd ! i)" if "i < ?n" for i
  proof -
    from assms have a: "list_all (\<lambda>r. r \<noteq> []) (take ?n (px_zs fwd))"
      and l: "?n \<le> length (px_zs fwd)" by (simp_all add: dvcca_valid_def)
    from that l have "take ?n (px_zs fwd) ! i \<in> set (take ?n (px_zs fwd))"
      by (intro nth_mem) simp
    with a have "take ?n (px_zs fwd) ! i \<noteq> []" by (simp add: list_all_iff)
    with that show ?thesis by simp
  qed
  have "\<forall>i\<in>set [0..<?n]. i < length (px_zs fwd) \<and> 0 < length (px_zs fwd ! i) \<and> i < length x"
    using assms row by (simp add: dvcca_valid_def)
  from dvcca_calc_ll_loop_returns[OF this, of loglik 0]
  obtain ll where ll: "dvcca_calc_ll_loop loglik x (px_zs fwd) [0..<?n] 0 = Inr ll" by blast
  have kl: "dvcca_calc_kl skl kld (m\<lparr>dv_beta := b\<rparr>) (qz_x fwd) = Inr (b * raw)" for b
  proof (cases "dv_private m")
    case True
    with raw show ?thesis by (simp add: dvcca_calc_kl_def dvcca_calc_kl_loop_beta)
  next
    case False
    with raw show ?thesis by (simp add: dvcca_calc_kl_def dvcca_calc_kl_loop_beta)
  qed
  have "dvcca_loss_function skl kld loglik (m\<lparr>dv_beta := b\<rparr>) x fwd =
           Inr [(''loss'', b * raw - ll), (''kl'', b * raw), (''ll'', ll)]" for b
    using ll by (simp add: dvcca_loss_function_def kl dvcca_calc_ll_def Let_def)
  then show ?thesis by blast
qed

lemma ex_dvcca_plain_fields:
  "dv_private ex_dvcca_plain" "\<not> dv_sparse ex_dvcca_plain" "dv_n_views ex_dvcca_plain = 2"
  "dv_beta ex_dvcca_plain = 2" "dv_z_dim ex_dvcca_plain = 4"
  by (simp_all add: ex_dvcca_plain_def ex_dvcca_def setencoders_def Let_def)

lemma ex_log_prob_exact: "torch_mean (sum_dim1 (ex_log_prob [replicate n 1] [replicate n 1])) = 0"
  by (simp add: ex_log_prob_def torch_mean_def sum_dim1_def sum_list_replicate)

lemma ex_compute_kl_values:
  "ex_compute_kl [[2, 0]] [[0, 0]] = 2" "ex_compute_kl [[0, 0]] [[0, 0]] = 0"
  by (simp_all add: ex_compute_kl_def torch_mean_def sum_dim1_def)

lemma ex_kld_values:
  "torch_mean (sum_dim1 (ex_kld \<lparr>loc = [[2, 0, 0, 0]], scale = [[1, 1, 1, 1]]\<rparr> ())) = 2"
  "torch_mean (sum_dim1 (ex_kld \<lparr>loc = [[0, 0, 0, 0]], scale = [[1, 1, 1, 1]]\<rparr> ())) = 0"
  by (simp_all add: ex_kld_def torch_mean_def sum_dim1_def)

lemma ex_joint_loss:
  "joint_loss_function ex_compute_kl (\<lambda>_ _. 0) ex_log_prob (ex_joint_vae 0 b) ex_x ex_joint_fwd =
     Inr [(''total'', b * 2), (''kl'', b * 2), (''ll'', 0)]"
  by (simp add: joint_loss_function_def joint_calc_kl_def joint_calc_ll_def Let_def
      ex_joint_vae_fields ex_x_def ex_joint_fwd_def ex_compute_kl_values ex_log_prob_exact
      upt_rec)

lemma ex_loss:
  "loss_function ex_compute_kl (\<lambda>_ _. 0) ex_log_prob (ex_vae 0 b) ex_x ex_fwd =
     Inr [(''total'', b * 2), (''kl'', b * 2), (''ll'', 0)]"
  by (simp add: loss_function_def calc_kl_def calc_ll_def Let_def
      ex_vae_fields ex_x_def ex_fwd_def ex_compute_kl_values ex_log_prob_exact
      upt_rec)

lemma ex_dvcca_loss:
  "dvcca_loss_function (\<lambda>_. []) ex_kld ex_log_prob ex_dvcca_plain ex_x ex_dvcca_fwd =
     Inr [(''loss'', 4), (''kl'', 4), (''ll'', 0)]"
  by (simp add: dvcca_loss_function_def dvcca_calc_kl_def dvcca_calc_ll_def Let_def
      ex_dvcca_plain_fields ex_x_def ex_dvcca_fwd_def ex_kld_values ex_log_prob_exact
      upt_rec)

section \<open>The claims\<close>

text \<open>
  C6 (as the code has it). On an instance with sparsity disabled (\<open>sparse = False\<close>,
  which is what the constructors set for \<open>threshold = 0\<close>), \<open>dropout()\<close> raises
  NotImplementedError and returns nothing. On a sparse instance whose \<open>log_alpha\<close> is
  \<open>None\<close> (sparsity switched on by keyword only) it raises AttributeError. On a sparse
  instance with its gate parameter it returns the float32 value of
  \<open>exp(log_alpha) / (exp(log_alpha) + 1)\<close>, one per latent dimension: NaN or a number
  from 0 to 1, both ends allowed. It is exactly 1 at \<open>log_alpha = 19\<close> and NaN at
  \<open>log_alpha = 100\<close>, so not always strictly between 0 and 1.
\<close>

theorem dropout_sparse_or_unsupported:
  "(\<not> sparse m \<longrightarrow> dropout m = Inl NotImplementedError) \<and>
   (sparse m \<and> log_alpha m = None \<longrightarrow> dropout m = Inl AttributeError) \<and>
   (sparse m \<and> log_alpha m = Some la \<longrightarrow>
      dropout m = Inr (map rate32 la) \<and>
      (\<forall>r \<in> set (map rate32 la). r = NaN \<or> (\<exists>v. r = Fin v \<and> 0 \<le> v \<and> v \<le> 1)))"
proof (intro conjI impI)
  assume "\<not> sparse m"
  then show "dropout m = Inl NotImplementedError" by (simp add: dropout_def)
next
  assume "sparse m \<and> log_alpha m = None"
  then show "dropout m = Inl AttributeError" by (simp add: dropout_def)
next
  assume "sparse m \<and> log_alpha m = Some la"
  then show "dropout m = Inr (map rate32 la)" by (simp add: dropout_gate)
next
  assume "sparse m \<and> log_alpha m = Some la"
  show "\<forall>r \<in> set (map rate32 la). r = NaN \<or> (\<exists>v. r = Fin v \<and> 0 \<le> v \<and> v \<le> 1)"
    using rate32_range by auto
qed

theorem dropout_sparse_or_unsupported_witness:
  "\<not> sparse (ex_vae 0 1) \<and> dropout (ex_vae 0 1) = Inl NotImplementedError \<and>
   sparse ex_vae_kw \<and> log_alpha ex_vae_kw = None \<and> dropout ex_vae_kw = Inl AttributeError \<and>
   sparse (ex_joint_vae (3 / 4) 1) \<and> log_alpha (ex_joint_vae (3 / 4) 1) = Some [0, 100] \<and>
   dropout (ex_joint_vae (3 / 4) 1) = Inr [Fin (1 / 2), NaN]"
  using dropout_sparse_or_unsupported [of "ex_vae 0 1" "[]"]
    dropout_sparse_or_unsupported [of ex_vae_kw "[]"]
    dropout_sparse_or_unsupported [of "ex_joint_vae (3 / 4) 1" "[0, 100]"]
  by (simp add: ex_vae_fields ex_joint_vae_fields ex_vae_kw_fields rate32_values)

theorem dropout_rate_nan_counterexample:
  "sparse (ex_vae (3 / 4) 1) \<and> log_alpha (ex_vae (3 / 4) 1) = Some [0, 100] \<and>
   dropout (ex_vae (3 / 4) 1) = Inr [Fin (1 / 2), NaN] \<and>
   \<not> (f32_less (Fin 0) NaN \<and> f32_less NaN (Fin 1)) \<and>
   dropout ((ex_vae (3 / 4) 1)\<lparr>log_alpha := Some [0, 19]\<rparr>) = Inr [Fin (1 / 2), Fin 1] \<and>
   \<not> (f32_less (Fin 0) (Fin 1) \<and> f32_less (Fin 1) (Fin 1)) \<and>
   sparse ex_vae_kw \<and> dropout ex_vae_kw = Inl AttributeError"
proof -
  have "dropout ex_vae_kw = Inl AttributeError"
    by (simp add: dropout_def ex_vae_kw_fields)
  moreover have "dropout ((ex_vae (3 / 4) 1)\<lparr>log_alpha := Some [0, 19]\<rparr>) =
      Inr [Fin (1 / 2), Fin 1]"
    by (simp add: dropout_gate ex_vae_fields rate32_values rate32_19)
  ultimately show ?thesis by (simp add: ex_dropout ex_vae_fields ex_vae_kw_fields)
qed

text \<open>
  C2 (as the code has it). On a sparse model with gate parameter \<open>log_alpha\<close> and a
  threshold in (0, 1], \<open>apply_threshold\<close> keeps exactly the latent dimensions whose
  float32 dropout rate is below the threshold and zeroes every other one, that is the
  dimensions whose rate is at least the threshold and also those whose rate is NaN
  (a rate is not below the threshold exactly in these two cases), by one mask over the dimensions used for every row of the batch: the joint latent
  becomes \<open>keep_below\<close> of itself, and so does every tensor of a list of per-view
  latents, nothing else in the store changing. When no rate is NaN this is the gate of
  the specification. With threshold 1 no dimension with a rate below 1 is zeroed. The
  latents have one column per entry of \<open>log_alpha\<close>.
\<close>

theorem apply_threshold_zeroes_dims_not_below:
  assumes "sparse m" and "log_alpha m = Some la"
    and "0 < threshold m" and "threshold m \<le> 1"
  shows
    "(joint_representation m \<and> s z = Tensor t \<and>
      list_all (\<lambda>row. length row = length la) t \<longrightarrow>
        apply_threshold m z s =
          (Inr z, s(z := Tensor (keep_below (threshold m) la t)))) \<and>
     (\<not> joint_representation m \<and> s z = PyList as \<and>
      (\<forall>a\<in>set as. \<exists>t. s a = Tensor t \<and> list_all (\<lambda>row. length row = length la) t) \<longrightarrow>
        (\<exists>s'. apply_threshold m z s = (Inr z, s') \<and>
              (\<forall>a. a \<notin> set as \<longrightarrow> s' a = s a) \<and>
              (\<forall>a\<in>set as. \<forall>t. s a = Tensor t \<longrightarrow>
                  s' a = Tensor (keep_below (threshold m) la t)))) \<and>
     (list_all (\<lambda>a. rate32 a \<noteq> NaN) la \<longrightarrow>
        keep_below (threshold m) la t = spec_apply_threshold (threshold m) la t) \<and>
     (threshold m = 1 \<and> b < length t \<and> j < length la \<and>
      f32_less (rate32 (la ! j)) (Fin 1) \<longrightarrow>
        keep_below (threshold m) la t ! b ! j = t ! b ! j) \<and>
     (\<not> f32_less (rate32 a) (round32 (threshold m))) =
       (f32_le (round32 (threshold m)) (rate32 a) \<or> rate32 a = NaN)"
proof (intro conjI impI)
  assume "joint_representation m \<and> s z = Tensor t \<and>
          list_all (\<lambda>row. length row = length la) t"
  with assms show "apply_threshold m z s =
      (Inr z, s(z := Tensor (keep_below (threshold m) la t)))"
    by (simp add: apply_threshold_joint_run)
next
  assume "\<not> joint_representation m \<and> s z = PyList as \<and>
      (\<forall>a\<in>set as. \<exists>t. s a = Tensor t \<and> list_all (\<lambda>row. length row = length la) t)"
  with assms show "\<exists>s'. apply_threshold m z s = (Inr z, s') \<and>
              (\<forall>a. a \<notin> set as \<longrightarrow> s' a = s a) \<and>
              (\<forall>a\<in>set as. \<forall>t. s a = Tensor t \<longrightarrow>
                  s' a = Tensor (keep_below (threshold m) la t))"
    by (intro apply_threshold_views_run) simp_all
next
  assume "list_all (\<lambda>a. rate32 a \<noteq> NaN) la"
  then show "keep_below (threshold m) la t = spec_apply_threshold (threshold m) la t"
    by (rule keep_below_spec)
next
  assume "threshold m = 1 \<and> b < length t \<and> j < length la \<and>
      f32_less (rate32 (la ! j)) (Fin 1)"
  then show "keep_below (threshold m) la t ! b ! j = t ! b ! j"
    by (simp add: keep_below_one_entry)
next
  show "(\<not> f32_less (rate32 a) (round32 (threshold m))) =
       (f32_le (round32 (threshold m)) (rate32 a) \<or> rate32 a = NaN)"
    using round32_not_nan by (rule f32_not_less_cases)
qed

theorem apply_threshold_zeroes_dims_not_below_witness:
  "sparse (ex_joint_vae (3 / 4) 1) \<and> log_alpha (ex_joint_vae (3 / 4) 1) = Some [0, 100] \<and>
   0 < threshold (ex_joint_vae (3 / 4) 1) \<and> threshold (ex_joint_vae (3 / 4) 1) \<le> 1 \<and>
   joint_representation (ex_joint_vae (3 / 4) 1) \<and> ex_store 0 = Tensor [[1, 2], [3, 4]] \<and>
   apply_threshold (ex_joint_vae (3 / 4) 1) 0 ex_store =
     (Inr 0, ex_store(0 := Tensor [[1, 0], [3, 0]])) \<and>
   sparse (ex_vae (3 / 4) 1) \<and> log_alpha (ex_vae (3 / 4) 1) = Some [0, 100] \<and>
   0 < threshold (ex_vae (3 / 4) 1) \<and> threshold (ex_vae (3 / 4) 1) \<le> 1 \<and>
   \<not> joint_representation (ex_vae (3 / 4) 1) \<and> ex_store 2 = PyList [0, 1] \<and>
   apply_threshold (ex_vae (3 / 4) 1) 2 ex_store =
     (Inr 2, ex_store(0 := Tensor [[1, 0], [3, 0]], 1 := Tensor [[5, 0]])) \<and>
   sparse (ex_vae 1 1) \<and> log_alpha (ex_vae 1 1) = Some [0, 100] \<and>
   threshold (ex_vae 1 1) = 1 \<and> f32_less (rate32 ([0, 100] ! 0)) (Fin 1) \<and>
   keep_below 1 [0, 100] [[1, 2], [3, 4]] ! 1 ! 0 = 3 \<and>
   rate32 0 \<noteq> NaN \<and>
   keep_below (3 / 4) [0] [[1], [3]] = spec_apply_threshold (3 / 4) [0] [[1], [3]] \<and>
   apply_threshold ((ex_joint_vae 1 1)\<lparr>log_alpha := Some [0, 19]\<rparr>) 0 ex_store =
     (Inr 0, ex_store(0 := Tensor [[1, 0], [3, 0]]))"
proof -
  have g: "keep_below (3 / 4) [0, 100] [[1, 2], [3, 4]] = [[1, 0], [3, 0]]"
    by (simp add: keep_below_def upt_rec rate32_values round32_values)
  have j: "apply_threshold (ex_joint_vae (3 / 4) 1) 0 ex_store =
     (Inr 0, ex_store(0 := Tensor [[1, 0], [3, 0]]))"
    using apply_threshold_zeroes_dims_not_below
      [of "ex_joint_vae (3 / 4) 1" "[0, 100]" ex_store 0 "[[1, 2], [3, 4]]" "[]" 0 0]
    by (simp add: ex_joint_vae_fields ex_store_at g)
  have v: "apply_threshold (ex_vae (3 / 4) 1) 2 ex_store =
     (Inr 2, ex_store(0 := Tensor [[1, 0], [3, 0]], 1 := Tensor [[5, 0]]))"
    using ex_views_threshold_run[of "3 / 4" 1]
      apply_threshold_zeroes_dims_not_below
        [of "ex_vae (3 / 4) 1" "[0, 100]" ex_store 2 "[[1, 2], [3, 4]]" "[0, 1]" 0 0]
    by (simp add: ex_vae_fields ex_store_at round32_values)
  have one: "keep_below 1 [0, 100] [[1, 2], [3, 4]] ! 1 ! 0 = 3"
    using apply_threshold_zeroes_dims_not_below
      [of "ex_vae 1 1" "[0, 100]" ex_store 2 "[[1, 2], [3, 4]]" "[0, 1]" 1 0]
    by (simp add: ex_vae_fields rate32_values)
  have sp: "keep_below (3 / 4) [0] [[1], [3]] = spec_apply_threshold (3 / 4) [0] [[1], [3]]"
    using apply_threshold_zeroes_dims_not_below
      [of "ex_vae (3 / 4) 1" "[0, 100]" ex_store 2 "[[1], [3]]" "[0, 1]" 0 0]
      keep_below_spec[of "[0]" "3 / 4" "[[1], [3]]"]
    by (simp add: rate32_values)
  have g19: "keep_below 1 [0, 19] [[1, 2], [3, 4]] = [[1, 0], [3, 0]]"
    by (simp add: keep_below_def upt_rec rate32_values rate32_19 round32_values)
  have r19: "apply_threshold ((ex_joint_vae 1 1)\<lparr>log_alpha := Some [0, 19]\<rparr>) 0 ex_store =
     (Inr 0, ex_store(0 := Tensor [[1, 0], [3, 0]]))"
    using apply_threshold_zeroes_dims_not_below
      [of "(ex_joint_vae 1 1)\<lparr>log_alpha := Some [0, 19]\<rparr>" "[0, 19]" ex_store 0
          "[[1, 2], [3, 4]]" "[]" 0 0]
    by (simp add: ex_joint_vae_fields ex_store_at g19)
  from j v one sp r19 show ?thesis
    by (simp add: ex_joint_vae_fields ex_vae_fields ex_store_at rate32_values)
qed

theorem nan_rate_is_zeroed_counterexample:
  "sparse (ex_joint_vae (3 / 4) 1) \<and> log_alpha (ex_joint_vae (3 / 4) 1) = Some [0, 100] \<and>
   threshold (ex_joint_vae (3 / 4) 1) = 3 / 4 \<and>
   apply_threshold (ex_joint_vae (3 / 4) 1) 0 ex_store =
     (Inr 0, ex_store(0 := Tensor [[1, 0], [3, 0]])) \<and>
   rate32 0 = Fin (1 / 2) \<and> rate32 100 = NaN \<and>
   \<not> f32_le (round32 (3 / 4)) (rate32 0) \<and> \<not> f32_le (round32 (3 / 4)) (rate32 100) \<and>
   spec_apply_threshold (3 / 4) [0, 100] [[1, 2], [3, 4]] = [[1, 2], [3, 4]]"
proof -
  have j: "apply_threshold (ex_joint_vae (3 / 4) 1) 0 ex_store =
     (Inr 0, ex_store(0 := Tensor [[1, 0], [3, 0]]))"
    using ex_joint_threshold_run[of "3 / 4" 1] by (simp add: round32_values)
  have sp: "spec_apply_threshold (3 / 4) [0, 100] [[1, 2], [3, 4]] = [[1, 2], [3, 4]]"
    by (simp add: spec_apply_threshold_def upt_rec rate32_values round32_values)
  from j sp show ?thesis
    by (simp add: ex_joint_vae_fields rate32_values round32_values)
qed

text \<open>
  C5 (as the code has it). \<open>apply_threshold\<close> with a threshold above 1 fails on the
  assertion before anything is masked: the store is unchanged. On a model constructed
  with threshold 0, where the constructor has disabled sparsity, it fails with the
  NotImplementedError of \<open>dropout()\<close>, again with the store unchanged. A negative
  threshold is not rejected: on a sparse model every dropout rate is above it, and
  every latent dimension is zeroed.
\<close>

theorem apply_threshold_rejects_threshold:
  "(1 < threshold m \<longrightarrow> apply_threshold m z s = (Inl AssertionError, s)) \<and>
   (VAE_init normal ep dp ids zd hl nl lr b 0 snp id = Inr m0 \<longrightarrow>
      apply_threshold m0 z s = (Inl NotImplementedError, s)) \<and>
   (joint_VAE_init normal ep dp ids zd hl nl lr b 0 snp jt id = (out, Inr m1) \<longrightarrow>
      apply_threshold m1 z s = (Inl NotImplementedError, s)) \<and>
   (threshold m < 0 \<and> sparse m \<and> log_alpha m = Some la \<and> joint_representation m \<and>
    s z = Tensor t \<and> list_all (\<lambda>row. length row = length la) t \<longrightarrow>
      apply_threshold m z s = (Inr z, s(z := Tensor (map (\<lambda>row. replicate (length la) 0) t))))"
proof (intro conjI impI)
  assume "1 < threshold m"
  then show "apply_threshold m z s = (Inl AssertionError, s)"
    by (rule apply_threshold_assert)
next
  assume "VAE_init normal ep dp ids zd hl nl lr b 0 snp id = Inr m0"
  from VAE_init_gate[OF this] show "apply_threshold m0 z s = (Inl NotImplementedError, s)"
    by (simp add: apply_threshold_not_sparse)
next
  assume "joint_VAE_init normal ep dp ids zd hl nl lr b 0 snp jt id = (out, Inr m1)"
  from joint_VAE_init_gate[OF this] show "apply_threshold m1 z s = (Inl NotImplementedError, s)"
    by (simp add: apply_threshold_not_sparse)
next
  assume h: "threshold m < 0 \<and> sparse m \<and> log_alpha m = Some la \<and> joint_representation m \<and>
    s z = Tensor t \<and> list_all (\<lambda>row. length row = length la) t"
  then have "apply_threshold m z s =
      (Inr z, s(z := Tensor (keep_below (threshold m) la t)))"
    by (intro apply_threshold_joint_run) simp_all
  moreover from h have "keep_below (threshold m) la t =
      map (\<lambda>row. replicate (length la) 0) t"
    by (intro keep_below_nonpos) simp
  ultimately show "apply_threshold m z s =
      (Inr z, s(z := Tensor (map (\<lambda>row. replicate (length la) 0) t)))" by simp
qed

theorem apply_threshold_rejects_threshold_witness:
  "1 < threshold (ex_vae 2 1) \<and>
   apply_threshold (ex_vae 2 1) 2 ex_store = (Inl AssertionError, ex_store) \<and>
   VAE_init ex_normal ex_ep ex_dp [10, 15] 2 [] False 0.002 1 0 False id = Inr (ex_vae 0 1) \<and>
   apply_threshold (ex_vae 0 1) 2 ex_store = (Inl NotImplementedError, ex_store) \<and>
   joint_VAE_init ex_normal ex_ep ex_dp [10, 15] 2 [] False 0.002 1 0 False ''PoE'' id =
     ([], Inr (ex_joint_vae 0 1)) \<and>
   apply_threshold (ex_joint_vae 0 1) 0 ex_store = (Inl NotImplementedError, ex_store) \<and>
   threshold (ex_joint_vae (-1) 1) < 0 \<and> sparse (ex_joint_vae (-1) 1) \<and>
   log_alpha (ex_joint_vae (-1) 1) = Some [0, 100] \<and>
   joint_representation (ex_joint_vae (-1) 1) \<and> ex_store 0 = Tensor [[1, 2], [3, 4]] \<and>
   apply_threshold (ex_joint_vae (-1) 1) 0 ex_store =
     (Inr 0, ex_store(0 := Tensor [[0, 0], [0, 0]]))"
  using apply_threshold_rejects_threshold
      [of "ex_vae 2 1" 2 ex_store ex_normal ex_ep ex_dp "[10, 15]" 2 "[]" False "0.002" 1
          False "ex_vae 0 1" "''PoE''" "[]" "ex_joint_vae 0 1" "[]"]
    apply_threshold_rejects_threshold
      [of "ex_joint_vae (-1) 1" 0 ex_store ex_normal ex_ep ex_dp "[10, 15]" 2 "[]" False
          "0.002" 1 False "ex_vae 0 1" "''PoE''" "[]" "ex_joint_vae 0 1"
          "[0, 100]" "[[1, 2], [3, 4]]"]
    ex_vae_built[of 1 0] ex_joint_vae_built[of 1 0]
  by (simp add: ex_vae_fields ex_joint_vae_fields ex_store_at numeral_2_eq_2)

theorem negative_threshold_counterexample:
  "VAE_init ex_normal ex_ep ex_dp [10, 15] 2 [] False 0.002 1 (-1) False id =
     Inr (ex_vae (-1) 1) \<and>
   threshold (ex_vae (-1) 1) = -1 \<and>
   apply_threshold (ex_vae (-1) 1) 2 ex_store =
     (Inr 2, ex_store(0 := Tensor [[0, 0], [0, 0]], 1 := Tensor [[0, 0]]))"
  using ex_vae_built[of 1 "-1"] ex_views_threshold_run[of "-1" 1]
  by (simp add: ex_vae_fields round32_values)



text \<open>
  C4. Constructing the joint model with a \<open>join_type\<close> other than \<open>'Mean'\<close> and \<open>'PoE'\<close>
  prints \<open>Incorrect join method\<close> and leaves the constructor through \<open>exit()\<close>
  (SystemExit), whatever the other arguments: no instance is built and no strategy is
  chosen by default. The two valid names build an instance with the named strategy.
\<close>

theorem invalid_join_type_exits:
  "(jt \<noteq> ''Mean'' \<and> jt \<noteq> ''PoE'' \<longrightarrow>
      joint_VAE_init normal ep dp ids zd hl nl lr b th snp jt kwargs =
        ([''Incorrect join method''], Inl SystemExit)) \<and>
   (jt = ''Mean'' \<or> jt = ''PoE'' \<longrightarrow>
      (\<exists>m. joint_VAE_init normal ep dp ids zd hl nl lr b th snp jt id = ([], Inr m) \<and>
           join_type m = Some jt \<and>
           join_z m = Some (if jt = ''PoE'' then ProductOfExperts else MeanRepresentation)))"
proof (intro conjI impI)
  assume "jt \<noteq> ''Mean'' \<and> jt \<noteq> ''PoE''"
  then show "joint_VAE_init normal ep dp ids zd hl nl lr b th snp jt kwargs =
        ([''Incorrect join method''], Inl SystemExit)"
    by (simp add: joint_VAE_init_invalid)
next
  assume "jt = ''Mean'' \<or> jt = ''PoE''"
  from joint_VAE_init_valid[OF this, of normal ep dp ids zd hl nl lr b th snp]
  show "\<exists>m. joint_VAE_init normal ep dp ids zd hl nl lr b th snp jt id = ([], Inr m) \<and>
           join_type m = Some jt \<and>
           join_z m = Some (if jt = ''PoE'' then ProductOfExperts else MeanRepresentation)"
    by blast
qed

theorem invalid_join_type_exits_witness:
  "''mean'' \<noteq> ''Mean'' \<and> ''mean'' \<noteq> ''PoE'' \<and>
   joint_VAE_init ex_normal ex_ep ex_dp [10, 15] 2 [] False 0.002 1 0 False ''mean'' id =
     ([''Incorrect join method''], Inl SystemExit) \<and>
   joint_VAE_init ex_normal ex_ep ex_dp [10, 15] 2 [] False 0.002 1 0 False ''PoE'' id =
     ([], Inr (ex_joint_vae 0 1)) \<and>
   join_z (ex_joint_vae 0 1) = Some ProductOfExperts"
  using invalid_join_type_exits
      [of "''mean''" ex_normal ex_ep ex_dp "[10, 15]" 2 "[]" False "0.002" 1 0 False id]
    invalid_join_type_exits
      [of "''PoE''" ex_normal ex_ep ex_dp "[10, 15]" 2 "[]" False "0.002" 1 0 False id]
    ex_joint_vae_built[of 1 0]
  by (simp add: ex_joint_vae_def ex_modules_def)

text \<open>
  C8 (as the code has it). The joint model (\<open>join_type\<close> Mean or PoE) builds its
  optimizers exactly as the model with one latent per view does: one Adam optimizer
  per view, the \<open>i\<close>-th over the parameters of encoder \<open>i\<close> followed by those of decoder
  \<open>i\<close>, with the model's learning rate.
\<close>

theorem joint_optimizers_per_view:
  "jt = ''Mean'' \<or> jt = ''PoE'' \<longrightarrow>
     (\<exists>m m'. joint_VAE_init normal ep dp ids zd hl nl lr b th snp jt id = ([], Inr m) \<and>
        VAE_init normal ep dp ids zd hl nl lr b th snp id = Inr m' \<and>
        optimizers m = map (\<lambda>i. \<lparr>opt_params = ep i @ dp i, opt_lr = lr\<rparr>) [0..<length ids] \<and>
        optimizers m' = optimizers m)"
proof
  assume "jt = ''Mean'' \<or> jt = ''PoE''"
  from joint_VAE_init_valid[OF this, of normal ep dp ids zd hl nl lr b th snp]
  obtain m where m: "joint_VAE_init normal ep dp ids zd hl nl lr b th snp jt id = ([], Inr m)"
    "optimizers m = map (\<lambda>i. \<lparr>opt_params = ep i @ dp i, opt_lr = lr\<rparr>) [0..<length ids]"
    by blast
  from VAE_init_valid[of normal ep dp ids zd hl nl lr b th snp]
  obtain m' where m': "VAE_init normal ep dp ids zd hl nl lr b th snp id = Inr m'"
    "optimizers m' = map (\<lambda>i. \<lparr>opt_params = ep i @ dp i, opt_lr = lr\<rparr>) [0..<length ids]"
    by blast
  from m m' show "\<exists>m m'. joint_VAE_init normal ep dp ids zd hl nl lr b th snp jt id = ([], Inr m) \<and>
        VAE_init normal ep dp ids zd hl nl lr b th snp id = Inr m' \<and>
        optimizers m = map (\<lambda>i. \<lparr>opt_params = ep i @ dp i, opt_lr = lr\<rparr>) [0..<length ids] \<and>
        optimizers m' = optimizers m"
    by simp
qed

theorem joint_optimizers_per_view_witness:
  "joint_VAE_init ex_normal ex_ep ex_dp [10, 15] 2 [] False 0.002 1 0 False ''PoE'' id =
     ([], Inr (ex_joint_vae 0 1)) \<and>
   VAE_init ex_normal ex_ep ex_dp [10, 15] 2 [] False 0.002 1 0 False id = Inr (ex_vae 0 1) \<and>
   optimizers (ex_joint_vae 0 1) =
     [\<lparr>opt_params = ex_ep 0 @ ex_dp 0, opt_lr = 0.002\<rparr>,
      \<lparr>opt_params = ex_ep 1 @ ex_dp 1, opt_lr = 0.002\<rparr>] \<and>
   optimizers (ex_vae 0 1) = optimizers (ex_joint_vae 0 1)"
  using joint_optimizers_per_view
      [of "''PoE''" ex_normal ex_ep ex_dp "[10, 15]" 2 "[]" False "0.002" 1 0 False]
    ex_joint_vae_built[of 1 0] ex_vae_built[of 1 0]
  by (simp add: ex_joint_vae_def ex_vae_def ex_modules_def ex_ep_def ex_dp_def)

theorem joint_optimizers_counterexample:
  "joint_VAE_init ex_normal ex_ep ex_dp [10, 15] 2 [] False 0.002 1 0 False ''PoE'' id =
     ([], Inr (ex_joint_vae 0 1)) \<and>
   map opt_params (optimizers (ex_joint_vae 0 1)) =
     [[(''encoder'', 0), (''decoder'', 0)], [(''encoder'', 1), (''decoder'', 1)]] \<and>
   \<not> spans_all_views ex_ep ex_dp 2 (optimizers (ex_joint_vae 0 1) ! 0) \<and>
   \<not> spans_all_views ex_ep ex_dp 2 (optimizers (ex_joint_vae 0 1) ! 1)"
  using ex_joint_vae_built[of 1 0]
  by (simp add: ex_joint_vae_def ex_modules_def spans_all_views_def ex_ep_def ex_dp_def upt_rec)

text \<open>
  C3. On a DVCCA instance with private latents (and at least one view), \<open>_setencoders\<close>
  returns with \<open>z_dim\<close> twice the configured one: the shared encoder and every private
  encoder are built with the configured width, so a shared and a private output side by
  side have the new width. Sparsity stays enabled exactly when \<open>sparse\<close> was set with a
  threshold other than 0, and then \<open>log_alpha\<close> is a fresh row of twice the configured
  width (shape [1, 2 * z_dim]); otherwise it is \<open>None\<close>.
\<close>

theorem setencoders_private_doubles:
  "dv_private m \<and> input_dim m \<noteq> [] \<longrightarrow>
     (\<exists>m'. setencoders normal1 normal2 m = Inr m' \<and>
        dv_z_dim m' = 2 * dv_z_dim m \<and>
        length (dv_encoders m') = 1 \<and>
        length (private_encoders m') = length (input_dim m) \<and>
        list_all (\<lambda>e. list_all (\<lambda>p. de_z_dim e + de_z_dim p = dv_z_dim m')
                               (private_encoders m')) (dv_encoders m') \<and>
        dv_sparse m' = (dv_sparse m \<and> dv_threshold m \<noteq> 0) \<and>
        dv_log_alpha m' =
          (if dv_sparse m \<and> dv_threshold m \<noteq> 0
           then Some (new_log_alpha normal2 (2 * dv_z_dim m)) else None) \<and>
        length (new_log_alpha normal2 (2 * dv_z_dim m)) = 2 * dv_z_dim m)"
  by (cases "input_dim m")
    (auto simp: setencoders_def Let_def new_log_alpha_def list_all_iff mult_2)

theorem setencoders_private_doubles_witness:
  "dv_private ex_dvcca \<and> input_dim ex_dvcca \<noteq> [] \<and> dv_z_dim ex_dvcca = 2 \<and>
   (case setencoders ex_normal ex_normal ex_dvcca of
      Inl e \<Rightarrow> False
    | Inr m' \<Rightarrow> dv_z_dim m' = 4 \<and> dv_sparse m' \<and>
               map_option length (dv_log_alpha m') = Some 4 \<and>
               map de_z_dim (dv_encoders m') = [2] \<and>
               map de_z_dim (private_encoders m') = [2, 2])"
  using setencoders_private_doubles [of ex_dvcca ex_normal ex_normal]
  by (auto simp: ex_dvcca_def setencoders_def Let_def new_log_alpha_def)

text \<open>
  C9. For \<open>mu\<close> and \<open>logvar\<close> of one shape (as \<open>encode\<close> returns them), the
  reparameterised sample of the joint model is \<open>mu + eps * exp(0.5 * logvar)\<close> entry by
  entry, \<open>eps\<close> being what \<open>randn_like(mu)\<close> drew; the model with one latent per view
  returns such a sample for every view, each with its own draw. \<open>sample_from_normal\<close>
  returns the mean \<open>loc\<close> of the distribution, unchanged.
\<close>

theorem reparameterise_is_mu_plus_eps_std:
  "(shape logvar_t = shape mu_t \<longrightarrow>
      joint_reparameterise randn mu_t logvar_t =
        Some (spec_reparameterise randn mu_t logvar_t)) \<and>
   (length logvars = length mus \<and>
    list_all (\<lambda>i. shape (logvars ! i) = shape (mus ! i)) [0..<length mus] \<longrightarrow>
      reparameterise randns mus logvars =
        Some (Inr (map (\<lambda>i. spec_reparameterise (randns i) (mus ! i) (logvars ! i))
                       [0..<length mus]))) \<and>
   sample_from_normal nrm = loc nrm"
proof (intro conjI impI)
  assume "shape logvar_t = shape mu_t"
  then show "joint_reparameterise randn mu_t logvar_t =
      Some (spec_reparameterise randn mu_t logvar_t)"
    by (rule joint_reparameterise_run)
next
  assume h: "length logvars = length mus \<and>
    list_all (\<lambda>i. shape (logvars ! i) = shape (mus ! i)) [0..<length mus]"
  then have "\<forall>i\<in>set [0..<length mus]. i < length mus \<and> i < length logvars \<and>
             shape (logvars ! i) = shape (mus ! i)"
    by (simp add: list_all_iff)
  from reparameterise_loop_run[OF this, of randns "[]"]
  show "reparameterise randns mus logvars =
      Some (Inr (map (\<lambda>i. spec_reparameterise (randns i) (mus ! i) (logvars ! i))
                     [0..<length mus]))"
    by (simp add: reparameterise_def)
next
  show "sample_from_normal nrm = loc nrm" by (simp add: sample_from_normal_def)
qed

theorem reparameterise_is_mu_plus_eps_std_witness:
  "shape [[0, ln 4]] = shape [[1, 2]] \<and>
   joint_reparameterise (\<lambda>b j. 3) [[1, 2]] [[0, ln 4]] = Some [[4, 8]] \<and>
   length [[[0, ln 4]]] = length [[[1, 2]]] \<and>
   reparameterise (\<lambda>i b j. 3) [[[1, 2]]] [[[0, ln 4]]] = Some (Inr [[[4, 8]]]) \<and>
   sample_from_normal \<lparr>loc = [[1, 2]], scale = [[1, 2]]\<rparr> = [[1, 2]]"
proof -
  have "ln (2 ^ 2) = real 2 * ln (2::real)" by (rule ln_realpow)
  then have "ln (4::real) = 2 * ln 2" by simp
  then have sq: "exp (ln 4 / 2) = (2::real)" by simp
  have v: "spec_reparameterise (\<lambda>b j. 3) [[1, 2]] [[0, ln 4]] = [[4, 8]]"
    by (simp add: spec_reparameterise_def upt_rec sq)
  show ?thesis
    using reparameterise_is_mu_plus_eps_std
      [of "[[0, ln 4]]" "[[1, 2]]" "\<lambda>b j. 3" "[[[0, ln 4]]]" "[[[1, 2]]]" "\<lambda>i b j. 3"
          "\<lparr>loc = [[1, 2]], scale = [[1, 2]]\<rparr>"]
    by (simp add: v shape_def)
qed

text \<open>
  C1 (as the code has it). On a valid batch every loss function returns, and the total
  is the returned \<open>kl\<close> minus the returned \<open>ll\<close>, where the returned \<open>kl\<close> is already
  \<open>beta\<close> times the unweighted KL sum: there are an unweighted KL \<open>raw\<close> and a
  log-likelihood \<open>ll\<close>, neither depending on \<open>beta\<close>, such that for every \<open>beta\<close> the
  result has \<open>kl = beta * raw\<close>, the same \<open>ll\<close>, and total \<open>beta * raw - ll\<close>. So \<open>beta\<close>
  scales the KL term only. DVCCA stores the total under the key \<open>loss\<close>.
\<close>

theorem total_is_weighted_kl_minus_ll:
  "(vae_valid m x fwd \<longrightarrow>
      (\<exists>raw ll. \<forall>b. loss_function ck cks log_prob (m\<lparr>beta := b\<rparr>) x fwd =
           Inr [(''total'', b * raw - ll), (''kl'', b * raw), (''ll'', ll)])) \<and>
   (joint_valid m x jfwd \<longrightarrow>
      (\<exists>raw ll. \<forall>b. joint_loss_function ck cks jlog_prob (m\<lparr>beta := b\<rparr>) x jfwd =
           Inr [(''total'', b * raw - ll), (''kl'', b * raw), (''ll'', ll)])) \<and>
   (dvcca_valid d x dfwd \<longrightarrow>
      (\<exists>raw ll. \<forall>b. dvcca_loss_function skl kld loglik (d\<lparr>dv_beta := b\<rparr>) x dfwd =
           Inr [(''loss'', b * raw - ll), (''kl'', b * raw), (''ll'', ll)]))"
proof (intro conjI impI)
  assume "vae_valid m x fwd"
  then show "\<exists>raw ll. \<forall>b. loss_function ck cks log_prob (m\<lparr>beta := b\<rparr>) x fwd =
           Inr [(''total'', b * raw - ll), (''kl'', b * raw), (''ll'', ll)]"
    by (rule loss_function_returns)
next
  assume "joint_valid m x jfwd"
  then show "\<exists>raw ll. \<forall>b. joint_loss_function ck cks jlog_prob (m\<lparr>beta := b\<rparr>) x jfwd =
           Inr [(''total'', b * raw - ll), (''kl'', b * raw), (''ll'', ll)]"
    by (rule joint_loss_function_returns)
next
  assume "dvcca_valid d x dfwd"
  then show "\<exists>raw ll. \<forall>b. dvcca_loss_function skl kld loglik (d\<lparr>dv_beta := b\<rparr>) x dfwd =
           Inr [(''loss'', b * raw - ll), (''kl'', b * raw), (''ll'', ll)]"
    by (rule dvcca_loss_function_returns)
qed

theorem total_is_weighted_kl_minus_ll_witness:
  "vae_valid (ex_vae 0 2) ex_x ex_fwd \<and> joint_valid (ex_vae 0 2) ex_x ex_joint_fwd \<and>
   dvcca_valid ex_dvcca_plain ex_x ex_dvcca_fwd \<and>
   loss_function ex_compute_kl (\<lambda>_ _. 0) ex_log_prob (ex_vae 0 2) ex_x ex_fwd =
     Inr [(''total'', 2 * 2 - 0), (''kl'', 2 * 2), (''ll'', 0)] \<and>
   loss_function ex_compute_kl (\<lambda>_ _. 0) ex_log_prob (ex_vae 0 3) ex_x ex_fwd =
     Inr [(''total'', 3 * 2 - 0), (''kl'', 3 * 2), (''ll'', 0)] \<and>
   dvcca_loss_function (\<lambda>_. []) ex_kld ex_log_prob ex_dvcca_plain ex_x ex_dvcca_fwd =
     Inr [(''loss'', 2 * 2 - 0), (''kl'', 2 * 2), (''ll'', 0)]"
proof -
  have v: "vae_valid (ex_vae 0 2) ex_x ex_fwd" "joint_valid (ex_vae 0 2) ex_x ex_joint_fwd"
    "dvcca_valid ex_dvcca_plain ex_x ex_dvcca_fwd"
    by (simp_all add: vae_valid_def joint_valid_def dvcca_valid_def ex_vae_fields
        ex_dvcca_plain_fields ex_x_def ex_fwd_def ex_joint_fwd_def ex_dvcca_fwd_def)
  from v show ?thesis
    using total_is_weighted_kl_minus_ll
      [of "ex_vae 0 2" ex_x ex_fwd ex_compute_kl "\<lambda>_ _. 0" ex_log_prob ex_joint_fwd ex_log_prob
          ex_dvcca_plain ex_dvcca_fwd "\<lambda>_. []" ex_kld ex_log_prob]
      ex_loss[of 2] ex_loss[of 3] ex_dvcca_loss
    by simp
qed

theorem total_is_not_beta_times_returned_kl_counterexample:
  "joint_VAE_init ex_normal ex_ep ex_dp [10, 15] 2 [] False 0.002 2 0 False ''PoE'' id =
     ([], Inr (ex_joint_vae 0 2)) \<and>
   beta (ex_joint_vae 0 2) = 2 \<and>
   joint_loss_function ex_compute_kl (\<lambda>_ _. 0) ex_log_prob (ex_joint_vae 0 2) ex_x ex_joint_fwd =
     Inr [(''total'', 4), (''kl'', 4), (''ll'', 0)] \<and>
   (4::real) \<noteq> 2 * 4 - 0"
  using ex_joint_vae_built[of 2 0] ex_joint_loss[of 2]
  by (simp add: ex_joint_vae_fields)

text \<open>
  C7 (as the code has it). The loss functions of the two VAE models return a mapping
  with exactly the keys \<open>total\<close>, \<open>kl\<close>, \<open>ll\<close>, in this order, whatever the input;
  the one of DVCCA returns the keys \<open>loss\<close>, \<open>kl\<close>, \<open>ll\<close>. Each key maps to one
  number computed from the arguments of the call. On a valid batch each of them
  returns such a mapping.
\<close>

theorem loss_function_keys:
  "(loss_function ck cks log_prob m x fwd = Inr losses \<longrightarrow>
      map fst losses = [''total'', ''kl'', ''ll'']) \<and>
   (joint_loss_function ck cks jlog_prob m x jfwd = Inr jlosses \<longrightarrow>
      map fst jlosses = [''total'', ''kl'', ''ll'']) \<and>
   (dvcca_loss_function skl kld loglik d x dfwd = Inr dlosses \<longrightarrow>
      map fst dlosses = [''loss'', ''kl'', ''ll'']) \<and>
   (vae_valid m x fwd \<longrightarrow>
      (\<exists>t k l. loss_function ck cks log_prob m x fwd =
         Inr [(''total'', t), (''kl'', k), (''ll'', l)])) \<and>
   (joint_valid m x jfwd \<longrightarrow>
      (\<exists>t k l. joint_loss_function ck cks jlog_prob m x jfwd =
         Inr [(''total'', t), (''kl'', k), (''ll'', l)])) \<and>
   (dvcca_valid d x dfwd \<longrightarrow>
      (\<exists>t k l. dvcca_loss_function skl kld loglik d x dfwd =
         Inr [(''loss'', t), (''kl'', k), (''ll'', l)]))"
proof (intro conjI impI)
  assume "loss_function ck cks log_prob m x fwd = Inr losses"
  then show "map fst losses = [''total'', ''kl'', ''ll'']"
    by (auto simp: loss_function_def Let_def split: sum.splits)
next
  assume "joint_loss_function ck cks jlog_prob m x jfwd = Inr jlosses"
  then show "map fst jlosses = [''total'', ''kl'', ''ll'']"
    by (auto simp: joint_loss_function_def Let_def split: sum.splits)
next
  assume "dvcca_loss_function skl kld loglik d x dfwd = Inr dlosses"
  then show "map fst dlosses = [''loss'', ''kl'', ''ll'']"
    by (auto simp: dvcca_loss_function_def Let_def split: sum.splits)
next
  assume "vae_valid m x fwd"
  from loss_function_returns[OF this, of ck cks log_prob] obtain raw ll where
    "loss_function ck cks log_prob (m\<lparr>beta := beta m\<rparr>) x fwd =
       Inr [(''total'', beta m * raw - ll), (''kl'', beta m * raw), (''ll'', ll)]" by blast
  then show "\<exists>t k l. loss_function ck cks log_prob m x fwd =
         Inr [(''total'', t), (''kl'', k), (''ll'', l)]" by simp
next
  assume "joint_valid m x jfwd"
  from joint_loss_function_returns[OF this, of ck cks jlog_prob] obtain raw ll where
    "joint_loss_function ck cks jlog_prob (m\<lparr>beta := beta m\<rparr>) x jfwd =
       Inr [(''total'', beta m * raw - ll), (''kl'', beta m * raw), (''ll'', ll)]" by blast
  then show "\<exists>t k l. joint_loss_function ck cks jlog_prob m x jfwd =
         Inr [(''total'', t), (''kl'', k), (''ll'', l)]" by simp
next
  assume "dvcca_valid d x dfwd"
  from dvcca_loss_function_returns[OF this, of skl kld loglik] obtain raw ll where
    "dvcca_loss_function skl kld loglik (d\<lparr>dv_beta := dv_beta d\<rparr>) x dfwd =
       Inr [(''loss'', dv_beta d * raw - ll), (''kl'', dv_beta d * raw), (''ll'', ll)]"
    by blast
  then show "\<exists>t k l. dvcca_loss_function skl kld loglik d x dfwd =
         Inr [(''loss'', t), (''kl'', k), (''ll'', l)]" by simp
qed

theorem loss_function_keys_witness:
  "vae_valid (ex_vae 0 2) ex_x ex_fwd \<and> joint_valid (ex_vae 0 2) ex_x ex_joint_fwd \<and>
   dvcca_valid ex_dvcca_plain ex_x ex_dvcca_fwd \<and>
   loss_function ex_compute_kl (\<lambda>_ _. 0) ex_log_prob (ex_vae 0 2) ex_x ex_fwd =
     Inr [(''total'', 4), (''kl'', 4), (''ll'', 0)] \<and>
   map fst [(''total'', 4::real), (''kl'', 4), (''ll'', 0)] = [''total'', ''kl'', ''ll''] \<and>
   dvcca_loss_function (\<lambda>_. []) ex_kld ex_log_prob ex_dvcca_plain ex_x ex_dvcca_fwd =
     Inr [(''loss'', 4), (''kl'', 4), (''ll'', 0)] \<and>
   map fst [(''loss'', 4::real), (''kl'', 4), (''ll'', 0)] = [''loss'', ''kl'', ''ll'']"
proof -
  have v: "vae_valid (ex_vae 0 2) ex_x ex_fwd" "joint_valid (ex_vae 0 2) ex_x ex_joint_fwd"
    "dvcca_valid ex_dvcca_plain ex_x ex_dvcca_fwd"
    by (simp_all add: vae_valid_def joint_valid_def dvcca_valid_def ex_vae_fields
        ex_dvcca_plain_fields ex_x_def ex_fwd_def ex_joint_fwd_def ex_dvcca_fwd_def)
  have l: "loss_function ex_compute_kl (\<lambda>_ _. 0) ex_log_prob (ex_vae 0 2) ex_x ex_fwd =
     Inr [(''total'', 4), (''kl'', 4), (''ll'', 0)]"
    using ex_loss[of 2] by simp
  from v l ex_dvcca_loss show ?thesis
    using loss_function_keys
      [of ex_compute_kl "\<lambda>_ _. 0" ex_log_prob "ex_vae 0 2" ex_x ex_fwd
          "[(''total'', 4), (''kl'', 4), (''ll'', 0)]" ex_log_prob ex_joint_fwd "[]"
          "\<lambda>_. []" ex_kld ex_log_prob ex_dvcca_plain ex_dvcca_fwd
          "[(''loss'', 4), (''kl'', 4), (''ll'', 0)]"]
    by simp
qed

theorem dvcca_has_no_total_key_counterexample:
  "dvcca_loss_function (\<lambda>_. []) ex_kld ex_log_prob ex_dvcca_plain ex_x ex_dvcca_fwd =
     Inr [(''loss'', 4), (''kl'', 4), (''ll'', 0)] \<and>
   map_of [(''loss'', 4::real), (''kl'', 4), (''ll'', 0)] ''total'' = None \<and>
   map fst [(''loss'', 4::real), (''kl'', 4), (''ll'', 0)] \<noteq> [''total'', ''kl'', ''ll'']"
  using ex_dvcca_loss by simp

end
